theory Spec2Isabelle
  imports Main
begin

section \<open>Python values\<close>

text \<open>
  The module \<^verbatim>\<open>build_swift/wrappers/cmake.py\<close> is dynamically typed: a cache entry's
  name, value and value type are arbitrary Python objects, and the code inspects them with
  \<^verbatim>\<open>isinstance\<close>, \<^verbatim>\<open>==\<close> and \<^verbatim>\<open>six.text_type\<close>. The universe of objects modelled
  here is the one the module and its tests pass around: \<^verbatim>\<open>None\<close>, booleans, integers,
  finite floats, text, lists, tuples and instances of \<^verbatim>\<open>CMakeValueType\<close>.

  A character is a code point below 256. A float is identified with the decimal its
  \<^verbatim>\<open>repr\<close> prints: \<open>PyFloat m e\<close> is the float whose text is \<open>m\<close> times ten to the
  power \<open>e\<close>, and its value is the double nearest to that decimal. NaN and the negative
  zero are outside the model. The builtins follow Python 3.11 with its default settings.
  Printing is total here and an integer prints all its digits, where Python 3.11 refuses
  to print an integer of more than 4300 digits with a \<^verbatim>\<open>ValueError\<close>.
\<close>

datatype CMakeValueType = CMakeValueType (type_name: string)

datatype pyval =
    PyNone
  | PyBool bool
  | PyInt int
  | PyFloat int int
  | PyStr string
  | PyList "pyval list"
  | PyTuple "pyval list"
  | PyValueType CMakeValueType

fun is_list :: "pyval \<Rightarrow> bool" where
  "is_list (PyList xs) = True"
| "is_list v = False"

fun is_bool :: "pyval \<Rightarrow> bool" where
  "is_bool (PyBool b) = True"
| "is_bool v = False"

fun is_string :: "pyval \<Rightarrow> bool" where
  "is_string (PyStr s) = True"
| "is_string v = False"

subsection \<open>Characters and decimal text\<close>

definition is_digit :: "char \<Rightarrow> bool" where
  "is_digit c = (48 \<le> (of_char c :: nat) \<and> (of_char c :: nat) \<le> 57)"

definition digit_val :: "char \<Rightarrow> nat" where
  "digit_val c = of_char c - 48"

text \<open>The characters \<^verbatim>\<open>int()\<close> strips: tab, newline, vertical tab, form feed, carriage
  return and the space, and beyond ASCII the next-line character U+0085 and the no-break
  space U+00A0, which it reads as spaces. The separators U+001C to U+001F are not
  stripped.\<close>

definition is_space :: "char \<Rightarrow> bool" where
  "is_space c =
     ((9 \<le> (of_char c :: nat) \<and> (of_char c :: nat) \<le> 13) \<or> (of_char c :: nat) = 32
      \<or> (of_char c :: nat) = 133 \<or> (of_char c :: nat) = 160)"

text \<open>
  \<^verbatim>\<open>str.upper()\<close>. The letters a to z and the Latin-1 letters U+00E0 to U+00FE (the
  division sign U+00F7 apart) move down by 32, and the sharp s U+00DF becomes \<^verbatim>\<open>SS\<close>.
  The uppercase forms of U+00B5 and U+00FF lie above 255; here these two characters stay
  as they are. Like their uppercase forms they are no space, no digit and no character of
  the two tables below.
\<close>

definition upper_char :: "char \<Rightarrow> string" where
  "upper_char c =
     (if (97 \<le> (of_char c :: nat) \<and> (of_char c :: nat) \<le> 122)
         \<or> (224 \<le> (of_char c :: nat) \<and> (of_char c :: nat) \<le> 254
             \<and> (of_char c :: nat) \<noteq> 247)
      then [char_of ((of_char c :: nat) - 32)]
      else if (of_char c :: nat) = 223 then ''SS''
      else [c])"

definition upper :: "string \<Rightarrow> string" where
  "upper s = concat (map upper_char s)"

definition digit_char :: "nat \<Rightarrow> char" where
  "digit_char d = ''0123456789'' ! d"

fun string_of_nat :: "nat \<Rightarrow> string" where
  "string_of_nat n =
     (if n < 10 then [digit_char n] else string_of_nat (n div 10) @ [digit_char (n mod 10)])"

declare string_of_nat.simps [simp del]

definition string_of_int :: "int \<Rightarrow> string" where
  "string_of_int i = (if i < 0 then CHR ''-'' # string_of_nat (nat (- i)) else string_of_nat (nat i))"

text \<open>\<^verbatim>\<open>sep.join(items)\<close>.\<close>

fun join :: "string \<Rightarrow> string list \<Rightarrow> string" where
  "join sep [] = []"
| "join sep [x] = x"
| "join sep (x # y # ys) = x @ sep @ join sep (y # ys)"

text \<open>\<^verbatim>\<open>s.endswith(suffix)\<close>.\<close>

definition endswith :: "string \<Rightarrow> string \<Rightarrow> bool" where
  "endswith s suf = (length suf \<le> length s \<and> drop (length s - length suf) s = suf)"

subsection \<open>The text of a float\<close>

fun strip_zeros :: "nat \<Rightarrow> int \<Rightarrow> nat \<times> int" where
  "strip_zeros m e =
     (if m \<noteq> 0 \<and> m mod 10 = 0 then strip_zeros (m div 10) (e + 1) else (m, e))"

declare strip_zeros.simps [simp del]

definition exp_text :: "int \<Rightarrow> string" where
  "exp_text x =
     (if x < 0 then ''-'' else ''+'') @
     (if \<bar>x\<bar> < 10 then ''0'' else '''') @ string_of_nat (nat \<bar>x\<bar>)"

text \<open>
  \<^verbatim>\<open>repr\<close> of a float: the shortest digit string \<open>ds\<close> with the decimal point after
  \<open>decpt\<close> digits, in exponent notation when \<open>decpt \<le> -4\<close> or \<open>decpt > 16\<close>, and with
  \<^verbatim>\<open>.0\<close> appended to a whole number.
\<close>

definition float_str :: "int \<Rightarrow> int \<Rightarrow> string" where
  "float_str m e =
     (if m = 0 then ''0.0''
      else
        (let (d, e') = strip_zeros (nat \<bar>m\<bar>) e;
             ds = string_of_nat d;
             n = int (length ds);
             decpt = n + e';
             sign = (if m < 0 then ''-'' else '''')
         in sign @
            (if decpt \<le> - 4 \<or> decpt > 16 then
               hd ds # (if n > 1 then ''.'' @ tl ds else '''') @ ''e'' @ exp_text (decpt - 1)
             else if decpt \<le> 0 then
               ''0.'' @ replicate (nat (- decpt)) CHR ''0'' @ ds
             else if decpt < n then
               take (nat decpt) ds @ ''.'' @ drop (nat decpt) ds
             else
               ds @ replicate (nat (decpt - n)) CHR ''0'' @ ''.0'')))"

subsection \<open>\<^verbatim>\<open>repr\<close> and \<^verbatim>\<open>six.text_type\<close>\<close>

definition hex_char :: "nat \<Rightarrow> char" where
  "hex_char d = ''0123456789abcdef'' ! d"

definition repr_char :: "char \<Rightarrow> char \<Rightarrow> string" where
  "repr_char q c =
     (if c = q \<or> c = CHR 0x5C then [CHR 0x5C, c]
      else if c = CHR 0x09 then [CHR 0x5C, CHR ''t'']
      else if c = CHR 0x0A then [CHR 0x5C, CHR ''n'']
      else if c = CHR 0x0D then [CHR 0x5C, CHR ''r'']
      else if (of_char c :: nat) < 32
              \<or> (127 \<le> (of_char c :: nat) \<and> (of_char c :: nat) \<le> 160)
              \<or> (of_char c :: nat) = 173 then
        [CHR 0x5C, CHR ''x'', hex_char ((of_char c :: nat) div 16),
         hex_char ((of_char c :: nat) mod 16)]
      else [c])"

definition repr_str :: "string \<Rightarrow> string" where
  "repr_str s =
     (let q = (if CHR 0x27 \<in> set s \<and> CHR 0x22 \<notin> set s then CHR 0x22 else CHR 0x27)
      in q # concat (map (repr_char q) s) @ [q])"

fun py_repr :: "pyval \<Rightarrow> string" where
  "py_repr PyNone = ''None''"
| "py_repr (PyBool b) = (if b then ''True'' else ''False'')"
| "py_repr (PyInt i) = string_of_int i"
| "py_repr (PyFloat m e) = float_str m e"
| "py_repr (PyStr s) = repr_str s"
| "py_repr (PyList xs) = ''['' @ join '', '' (map py_repr xs) @ '']''"
| "py_repr (PyTuple xs) =
     ''('' @ join '', '' (map py_repr xs) @ (if length xs = 1 then '','' else '''') @ '')''"
| "py_repr (PyValueType t) = ''CMakeValueType.'' @ type_name t"

text \<open>\<^verbatim>\<open>six.text_type(value)\<close>: text is itself, a \<^verbatim>\<open>CMakeValueType\<close> is its name
  (its \<^verbatim>\<open>__str__\<close>), and every other object prints as its \<^verbatim>\<open>repr\<close>.\<close>

fun text_type :: "pyval \<Rightarrow> string" where
  "text_type (PyStr s) = s"
| "text_type (PyValueType t) = type_name t"
| "text_type v = py_repr v"

subsection \<open>\<^verbatim>\<open>int(text)\<close>\<close>

text \<open>
  \<^verbatim>\<open>int(s)\<close> in base ten: surrounding whitespace is stripped, one sign may lead, and
  the rest is decimal digits, where single underscores may stand between two digits. A text
  of more than 4300 digits is refused (\<^verbatim>\<open>sys.int_max_str_digits\<close>). \<open>None\<close> is the
  \<^verbatim>\<open>ValueError\<close>.
\<close>

fun parse_digits :: "nat \<Rightarrow> bool \<Rightarrow> string \<Rightarrow> nat option" where
  "parse_digits acc prev [] = (if prev then Some acc else None)"
| "parse_digits acc prev (c # cs) =
     (if is_digit c then parse_digits (acc * 10 + digit_val c) True cs
      else if c = CHR ''_'' \<and> prev then parse_digits acc False cs
      else None)"

definition int_max_str_digits :: nat where
  "int_max_str_digits = 4300"

definition parse_body :: "string \<Rightarrow> nat option" where
  "parse_body b =
     (if length (filter is_digit b) > int_max_str_digits then None
      else parse_digits 0 False b)"

definition strip :: "string \<Rightarrow> string" where
  "strip s = rev (dropWhile is_space (rev (dropWhile is_space s)))"

definition py_int :: "string \<Rightarrow> int option" where
  "py_int s =
     (case strip s of
        [] \<Rightarrow> None
      | c # cs \<Rightarrow>
          if c = CHR ''-'' then map_option (\<lambda>n. - int n) (parse_body cs)
          else if c = CHR ''+'' then map_option int (parse_body cs)
          else map_option int (parse_body (c # cs)))"

section \<open>Constants and helpers\<close>

datatype error =
    InvalidName
  | InvalidBoolean
  | InvalidListValue
  | UnknownType
  | NotFound

text \<open>
  Each constructor stands for one kind of \<^verbatim>\<open>raise\<close> of the module:
  \<open>InvalidName\<close> for the two \<^verbatim>\<open>ValueError\<close>s on an entry's name,
  \<open>InvalidBoolean\<close> for \<^verbatim>\<open>ValueError("Invalid bool value: ...")\<close> and for the
  \<^verbatim>\<open>ValueError\<close> that takes its place when \<^verbatim>\<open>_cmake_bool\<close> is given an integer too long to
  print,
  \<open>InvalidListValue\<close> for \<^verbatim>\<open>ValueError("Invalid list value: ...")\<close>,
  \<open>UnknownType\<close> for \<^verbatim>\<open>ValueError('Unknown value type "..."')\<close> and
  \<open>NotFound\<close> for the \<^verbatim>\<open>KeyError\<close> of \<^verbatim>\<open>OrderedDict.pop\<close>.
\<close>

definition TRUTHY_VALUES :: "string list" where
  "TRUTHY_VALUES = [''TRUE'', ''ON'', ''YES'', ''Y'']"

definition FALSEY_VALUES :: "string list" where
  "FALSEY_VALUES = [''0'', ''FALSE'', ''OFF'', ''NO'', ''N'', ''IGNORE'', ''NOTFOUND'']"

definition NOTFOUND_SUFFIX :: string where
  "NOTFOUND_SUFFIX = ''-NOTFOUND''"

definition is_truthy :: "pyval \<Rightarrow> bool" where
  "is_truthy value =
     (let v = upper (text_type value)
      in if v \<in> set TRUTHY_VALUES then True
         else (case py_int v of Some n \<Rightarrow> n \<noteq> 0 | None \<Rightarrow> False))"

definition is_falsey :: "pyval \<Rightarrow> bool" where
  "is_falsey value =
     (let v = upper (text_type value)
      in v = '''' \<or> v \<in> set FALSEY_VALUES \<or> endswith v NOTFOUND_SUFFIX)"

definition cmake_bool :: "pyval \<Rightarrow> error + bool" where
  "cmake_bool value =
     (if is_truthy value then Inr True
      else if is_falsey value then Inr False
      else Inl InvalidBoolean)"

subsection \<open>The operator \<^verbatim>\<open>==\<close> on values\<close>

text \<open>
  Booleans, integers and floats compare by their exact numeric value (\<^verbatim>\<open>True == 1\<close>),
  text with text, lists with lists and tuples with tuples element by element, and two
  \<^verbatim>\<open>CMakeValueType\<close>s by name; objects of unrelated types are unequal.

  The exact value of a float is a binary fraction: \<open>Finite m k\<close> is \<open>m\<close> times two to the
  power \<open>k\<close>. \<open>double_of_decimal m e\<close> is the double nearest to \<open>m\<close> times ten to the power
  \<open>e\<close>, as \<^verbatim>\<open>float\<close> reads that decimal: 53 bits, ties to the even mantissa, gradual
  underflow down to two to the power -1074, and infinity from two to the power 1024 on.
\<close>

datatype number = Finite int int | Infinity bool

fun bit_length :: "nat \<Rightarrow> nat" where
  "bit_length n = (if n = 0 then 0 else Suc (bit_length (n div 2)))"

declare bit_length.simps [simp del]

text \<open>The integer part of the binary logarithm of \<open>p / q\<close>, for positive \<open>p\<close> and \<open>q\<close>.\<close>

definition floor_log2 :: "nat \<Rightarrow> nat \<Rightarrow> int" where
  "floor_log2 p q =
     (let t = int (bit_length p) - int (bit_length q)
      in if q * 2 ^ nat t \<le> p * 2 ^ nat (- t) then t else t - 1)"

definition round_half_even :: "nat \<Rightarrow> nat \<Rightarrow> nat" where
  "round_half_even num den =
     (let q = num div den; r = num mod den
      in if den < 2 * r \<or> (2 * r = den \<and> odd q) then q + 1 else q)"

definition double_of_decimal :: "int \<Rightarrow> int \<Rightarrow> number" where
  "double_of_decimal m e =
     (if m = 0 then Finite 0 0
      else
        (let p = nat \<bar>m\<bar> * 10 ^ nat e;
             q = 10 ^ nat (- e);
             k = max (floor_log2 p q - 52) (- 1074);
             mant = round_half_even (p * 2 ^ nat (- k)) (q * 2 ^ nat k)
         in if 971 < k \<or> (k = 971 \<and> mant = 2 ^ 53) then Infinity (m < 0)
            else Finite (if m < 0 then - int mant else int mant) k))"

fun py_num :: "pyval \<Rightarrow> number option" where
  "py_num (PyBool b) = Some (Finite (if b then 1 else 0) 0)"
| "py_num (PyInt i) = Some (Finite i 0)"
| "py_num (PyFloat m e) = Some (double_of_decimal m e)"
| "py_num v = None"

fun num_eq :: "number \<Rightarrow> number \<Rightarrow> bool" where
  "num_eq (Finite a j) (Finite b k) =
     (a * 2 ^ nat (j - min j k) = b * 2 ^ nat (k - min j k))"
| "num_eq (Infinity s) (Infinity t) = (s = t)"
| "num_eq x y = False"

fun py_eq :: "pyval \<Rightarrow> pyval \<Rightarrow> bool"
  and py_eq_list :: "pyval list \<Rightarrow> pyval list \<Rightarrow> bool" where
  "py_eq PyNone PyNone = True"
| "py_eq (PyStr s) (PyStr t) = (s = t)"
| "py_eq (PyList xs) (PyList ys) = py_eq_list xs ys"
| "py_eq (PyTuple xs) (PyTuple ys) = py_eq_list xs ys"
| "py_eq (PyValueType a) (PyValueType b) = (type_name a = type_name b)"
| "py_eq a b =
     (case (py_num a, py_num b) of (Some x, Some y) \<Rightarrow> num_eq x y | _ \<Rightarrow> False)"
| "py_eq_list [] [] = True"
| "py_eq_list (x # xs) (y # ys) = (py_eq x y \<and> py_eq_list xs ys)"
| "py_eq_list xs ys = False"

section \<open>Value wrappers\<close>

text \<open>
  The three wrapper classes. \<^verbatim>\<open>_BoolWrapper\<close> and \<^verbatim>\<open>_ListWrapper\<close> are subclasses of
  \<^verbatim>\<open>_ValueWrapper\<close>; the slot \<^verbatim>\<open>value\<close> of a \<^verbatim>\<open>_BoolWrapper\<close> holds a Python bool
  and that of a \<^verbatim>\<open>_ListWrapper\<close> a list, by their constructors.
\<close>

datatype wrapper =
    ValueWrapper pyval
  | BoolWrapper bool
  | ListWrapper "pyval list"

datatype wrapper_class = ValueWrapperClass | BoolWrapperClass | ListWrapperClass

fun type_of :: "wrapper \<Rightarrow> wrapper_class" where
  "type_of (ValueWrapper v) = ValueWrapperClass"
| "type_of (BoolWrapper b) = BoolWrapperClass"
| "type_of (ListWrapper xs) = ListWrapperClass"

fun issubclass :: "wrapper_class \<Rightarrow> wrapper_class \<Rightarrow> bool" where
  "issubclass c ValueWrapperClass = True"
| "issubclass c d = (c = d)"

definition isinstance :: "wrapper \<Rightarrow> wrapper_class \<Rightarrow> bool" where
  "isinstance w c = issubclass (type_of w) c"

fun wrapper_value :: "wrapper \<Rightarrow> pyval" where
  "wrapper_value (ValueWrapper v) = v"
| "wrapper_value (BoolWrapper b) = PyBool b"
| "wrapper_value (ListWrapper xs) = PyList xs"

definition ValueWrapper_init :: "pyval \<Rightarrow> wrapper" where
  "ValueWrapper_init value = ValueWrapper value"

definition BoolWrapper_init :: "pyval \<Rightarrow> error + wrapper" where
  "BoolWrapper_init value =
     (case cmake_bool value of Inl err \<Rightarrow> Inl err | Inr b \<Rightarrow> Inr (BoolWrapper b))"

definition ListWrapper_init :: "pyval \<Rightarrow> error + wrapper" where
  "ListWrapper_init value =
     (case value of PyList xs \<Rightarrow> Inr (ListWrapper xs) | _ \<Rightarrow> Inl InvalidListValue)"

text \<open>\<^verbatim>\<open>__str__\<close> of each class.\<close>

fun wrapper_str :: "wrapper \<Rightarrow> string" where
  "wrapper_str (ValueWrapper v) = text_type v"
| "wrapper_str (BoolWrapper b) = upper (text_type (PyBool b))"
| "wrapper_str (ListWrapper xs) = join '';'' (map text_type xs)"

text \<open>\<^verbatim>\<open>_ValueWrapper.__eq__\<close>, inherited by both subclasses; \<open>None\<close> is
  \<^verbatim>\<open>NotImplemented\<close>.\<close>

definition wrapper_eq_method :: "wrapper \<Rightarrow> wrapper \<Rightarrow> bool option" where
  "wrapper_eq_method self other =
     (if \<not> isinstance other (type_of self) then None
      else Some (py_eq (wrapper_value self) (wrapper_value other)))"

text \<open>
  The operator \<^verbatim>\<open>v == w\<close> on two wrappers, by Python's protocol: when the class of
  \<open>w\<close> is a proper subclass of the class of \<open>v\<close>, the method of \<open>w\<close> is asked first;
  then the method of \<open>v\<close>; then, if not asked yet, the method of \<open>w\<close>. When every
  answer is \<^verbatim>\<open>NotImplemented\<close> the result is the identity test \<^verbatim>\<open>v is w\<close>, which is
  false there: an object is an instance of its own class, so its method answers for itself.
\<close>

definition wrapper_eq :: "wrapper \<Rightarrow> wrapper \<Rightarrow> bool" where
  "wrapper_eq v w =
     (let reflected_first = (type_of v \<noteq> type_of w \<and> issubclass (type_of w) (type_of v))
      in case (if reflected_first then wrapper_eq_method w v else None) of
           Some r \<Rightarrow> r
         | None \<Rightarrow>
             (case wrapper_eq_method v w of
                Some r \<Rightarrow> r
              | None \<Rightarrow>
                  (case (if reflected_first then None else wrapper_eq_method w v) of
                     Some r \<Rightarrow> r
                   | None \<Rightarrow> False)))"

section \<open>CMake value types\<close>

definition register :: "CMakeValueType list \<Rightarrow> string \<Rightarrow> CMakeValueType list" where
  "register ms n =
     (let member = CMakeValueType n in if member \<in> set ms then ms else ms @ [member])"

definition members :: "CMakeValueType list" where
  "members = foldl register [] [''BOOL'', ''FILEPATH'', ''PATH'', ''STRING'', ''INTERNAL'']"

definition BOOL :: CMakeValueType where "BOOL = CMakeValueType ''BOOL''"
definition FILEPATH :: CMakeValueType where "FILEPATH = CMakeValueType ''FILEPATH''"
definition PATH :: CMakeValueType where "PATH = CMakeValueType ''PATH''"
definition STRING :: CMakeValueType where "STRING = CMakeValueType ''STRING''"
definition INTERNAL :: CMakeValueType where "INTERNAL = CMakeValueType ''INTERNAL''"

fun from_name_in :: "CMakeValueType list \<Rightarrow> string \<Rightarrow> error + CMakeValueType" where
  "from_name_in [] n = Inl UnknownType"
| "from_name_in (m # ms) n = (if type_name m = n then Inr m else from_name_in ms n)"

definition from_name :: "string \<Rightarrow> error + CMakeValueType" where
  "from_name n = from_name_in members n"

section \<open>Cache entries\<close>

record CMakeCacheEntry =
  name :: string
  value_wrapper :: wrapper
  value_type :: pyval

text \<open>
  \<^verbatim>\<open>CMakeCacheEntry.__init__(name, value, value_type=None)\<close>. The last step of the
  constructor resolves a value type given as text.
\<close>

definition resolve_type :: "string \<Rightarrow> wrapper \<Rightarrow> pyval \<Rightarrow> error + CMakeCacheEntry" where
  "resolve_type n w vt =
     (case vt of
        PyStr s \<Rightarrow>
          (case from_name s of
             Inl err \<Rightarrow> Inl err
           | Inr m \<Rightarrow> Inr \<lparr>name = n, value_wrapper = w, value_type = PyValueType m\<rparr>)
      | _ \<Rightarrow> Inr \<lparr>name = n, value_wrapper = w, value_type = vt\<rparr>)"

definition CMakeCacheEntry_init :: "pyval \<Rightarrow> pyval \<Rightarrow> pyval \<Rightarrow> error + CMakeCacheEntry" where
  "CMakeCacheEntry_init nm value vt =
     (case nm of
        PyStr n \<Rightarrow>
          if length n < 1 then Inl InvalidName
          else if is_list value then
            (case ListWrapper_init value of
               Inl err \<Rightarrow> Inl err
             | Inr w \<Rightarrow> resolve_type n w (PyValueType STRING))
          else if is_bool value \<or> py_eq vt (PyValueType BOOL) then
            (case BoolWrapper_init value of
               Inl err \<Rightarrow> Inl err
             | Inr w \<Rightarrow> resolve_type n w (PyValueType BOOL))
          else resolve_type n (ValueWrapper_init value) vt
      | _ \<Rightarrow> Inl InvalidName)"

definition entry_value :: "CMakeCacheEntry \<Rightarrow> pyval" where
  "entry_value e = wrapper_value (value_wrapper e)"

text \<open>\<^verbatim>\<open>CMakeCacheEntry.__str__\<close>.\<close>

definition entry_str :: "CMakeCacheEntry \<Rightarrow> string" where
  "entry_str e =
     (if value_type e = PyNone then name e @ ''='' @ wrapper_str (value_wrapper e)
      else name e @ '':'' @ text_type (value_type e) @ ''='' @ wrapper_str (value_wrapper e))"

section \<open>The cache\<close>

text \<open>
  The \<^verbatim>\<open>OrderedDict\<close> held in \<^verbatim>\<open>_entries\<close> is the list of its items in iteration
  order. Assigning to a key that is present replaces the value where it stands;
  assigning to a new key appends it.
\<close>

type_synonym CMakeCache = "(string \<times> CMakeCacheEntry) list"

fun od_setitem :: "('k \<times> 'v) list \<Rightarrow> 'k \<Rightarrow> 'v \<Rightarrow> ('k \<times> 'v) list" where
  "od_setitem [] k v = [(k, v)]"
| "od_setitem ((k', v') # d) k v =
     (if k' = k then (k', v) # d else (k', v') # od_setitem d k v)"

definition od_keys :: "('k \<times> 'v) list \<Rightarrow> 'k list" where
  "od_keys d = map fst d"

definition od_values :: "('k \<times> 'v) list \<Rightarrow> 'v list" where
  "od_values d = map snd d"

text \<open>\<^verbatim>\<open>d.pop(k)\<close>: the value and the dictionary without the key, or the
  \<^verbatim>\<open>KeyError\<close>. A dictionary holds a key once, so dropping the items with that key
  drops the one item.\<close>

definition od_pop :: "('k \<times> 'v) list \<Rightarrow> 'k \<Rightarrow> error + ('v \<times> ('k \<times> 'v) list)" where
  "od_pop d k =
     (case map_of d k of
        None \<Rightarrow> Inl NotFound
      | Some v \<Rightarrow> Inr (v, filter (\<lambda>p. fst p \<noteq> k) d))"

text \<open>\<^verbatim>\<open>d.update(other)\<close>: every item of \<open>other\<close> is assigned, in its order.\<close>

definition od_update :: "('k \<times> 'v) list \<Rightarrow> ('k \<times> 'v) list \<Rightarrow> ('k \<times> 'v) list" where
  "od_update d other = foldl (\<lambda>acc p. od_setitem acc (fst p) (snd p)) d other"

definition CMakeCache_init :: CMakeCache where
  "CMakeCache_init = []"

definition CMakeCache_entries :: "CMakeCache \<Rightarrow> CMakeCacheEntry list" where
  "CMakeCache_entries c = od_values c"

definition CMakeCache_args :: "CMakeCache \<Rightarrow> string list" where
  "CMakeCache_args c = map (\<lambda>e. ''-D'' @ entry_str e) (CMakeCache_entries c)"

datatype 'd lookup = Found CMakeCacheEntry | Default 'd

definition CMakeCache_get :: "CMakeCache \<Rightarrow> string \<Rightarrow> 'd \<Rightarrow> 'd lookup" where
  "CMakeCache_get c k dflt =
     (case map_of c k of Some e \<Rightarrow> Found e | None \<Rightarrow> Default dflt)"

text \<open>
  The mutating methods return their outcome and the cache afterwards. In
  \<^verbatim>\<open>set\<close> the entry is constructed before the assignment, so a constructor that raises
  leaves \<^verbatim>\<open>_entries\<close> as it was. The key of the assignment is the name argument,
  which is the text the constructed entry holds as its name. The names given to
  \<^verbatim>\<open>get\<close> and \<^verbatim>\<open>unset\<close> are text, as every key of the dictionary is.
\<close>

definition CMakeCache_set ::
  "CMakeCache \<Rightarrow> pyval \<Rightarrow> pyval \<Rightarrow> pyval \<Rightarrow> (error + unit) \<times> CMakeCache" where
  "CMakeCache_set c nm value vt =
     (case CMakeCacheEntry_init nm value vt of
        Inl err \<Rightarrow> (Inl err, c)
      | Inr e \<Rightarrow> (Inr (), od_setitem c (name e) e))"

definition CMakeCache_unset :: "CMakeCache \<Rightarrow> string \<Rightarrow> (error + unit) \<times> CMakeCache" where
  "CMakeCache_unset c k =
     (case od_pop c k of
        Inl err \<Rightarrow> (Inl err, c)
      | Inr (v, c') \<Rightarrow> (Inr (), c'))"

definition CMakeCache_clear :: "CMakeCache \<Rightarrow> CMakeCache" where
  "CMakeCache_clear c = []"

definition CMakeCache_iadd :: "CMakeCache \<Rightarrow> CMakeCache \<Rightarrow> CMakeCache" where
  "CMakeCache_iadd self other = od_update self other"

definition CMakeCache_add :: "CMakeCache \<Rightarrow> CMakeCache \<Rightarrow> CMakeCache" where
  "CMakeCache_add self other =
     CMakeCache_iadd (CMakeCache_iadd CMakeCache_init self) other"

section \<open>Specification-side notions\<close>

text \<open>
  The two classification tables as the specification words them, on the uppercase text:
  the truthy words or a text that parses as a nonzero integer; the empty text, the falsey
  words or a text ending in \<^verbatim>\<open>-NOTFOUND\<close>.
\<close>

definition spec_truthy :: "string \<Rightarrow> bool" where
  "spec_truthy t =
     (t \<in> {''TRUE'', ''ON'', ''YES'', ''Y''}
      \<or> (case py_int t of Some n \<Rightarrow> n \<noteq> 0 | None \<Rightarrow> False))"

definition spec_falsey :: "string \<Rightarrow> bool" where
  "spec_falsey t =
     (t = '''' \<or> t \<in> {''0'', ''FALSE'', ''OFF'', ''NO'', ''N'', ''IGNORE'', ''NOTFOUND''}
      \<or> endswith t ''-NOTFOUND'')"

text \<open>
  The same tables worded without the model of \<^verbatim>\<open>int()\<close>. A text denotes the integer
  \<open>n\<close> when it is whitespace, an optional sign, a body and whitespace, where the body is
  groups of digits joined by single underscores, holds at most 4300 digits, and \<open>n\<close> is the
  decimal number its digits write, negated after a minus sign.
\<close>

inductive digit_groups :: "string \<Rightarrow> bool" where
  digit: "is_digit c \<Longrightarrow> digit_groups [c]"
| digits: "is_digit c \<Longrightarrow> digit_groups b \<Longrightarrow> digit_groups (c # b)"
| underscore: "is_digit c \<Longrightarrow> digit_groups b \<Longrightarrow> digit_groups (c # CHR ''_'' # b)"

definition decimal :: "string \<Rightarrow> nat" where
  "decimal ds = foldl (\<lambda>a c. a * 10 + digit_val c) 0 ds"

definition int_literal :: "string \<Rightarrow> int \<Rightarrow> bool" where
  "int_literal s n =
     (\<exists>ws1 sg b ws2.
        s = ws1 @ sg @ b @ ws2 \<and> list_all is_space ws1 \<and> list_all is_space ws2
        \<and> digit_groups b \<and> length (filter is_digit b) \<le> 4300
        \<and> ((sg = [] \<or> sg = ''+'') \<and> n = int (decimal (filter is_digit b))
            \<or> sg = ''-'' \<and> n = - int (decimal (filter is_digit b))))"

definition truthy_text :: "string \<Rightarrow> bool" where
  "truthy_text t =
     (t \<in> {''TRUE'', ''ON'', ''YES'', ''Y''} \<or> (\<exists>n. int_literal t n \<and> n \<noteq> 0))"

definition falsey_text :: "string \<Rightarrow> bool" where
  "falsey_text t =
     (t = '''' \<or> t \<in> {''0'', ''FALSE'', ''OFF'', ''NO'', ''N'', ''IGNORE'', ''NOTFOUND''}
      \<or> (\<exists>p. t = p @ ''-NOTFOUND''))"

text \<open>The characters a text accepted by \<^verbatim>\<open>int()\<close> is made of.\<close>

definition int_char :: "char \<Rightarrow> bool" where
  "int_char c =
     (is_space c \<or> c = CHR ''+'' \<or> c = CHR ''-'' \<or> is_digit c \<or> c = CHR ''_'')"

text \<open>
  First-insertion order of a sequence of names: each name stands where it first occurred.
\<close>

definition first_insertion_order :: "'k list \<Rightarrow> 'k list" where
  "first_insertion_order ks =
     foldl (\<lambda>acc k. if k \<in> set acc then acc else acc @ [k]) [] ks"

text \<open>
  A client that calls \<^verbatim>\<open>cache.set(name, value, value_type)\<close> for each triple in turn,
  going on after a call that raised; and the entries whose construction succeeded.
\<close>

fun set_all :: "CMakeCache \<Rightarrow> (pyval \<times> pyval \<times> pyval) list \<Rightarrow> CMakeCache" where
  "set_all c [] = c"
| "set_all c ((nm, value, vt) # calls) = set_all (snd (CMakeCache_set c nm value vt)) calls"

fun constructed :: "(pyval \<times> pyval \<times> pyval) list \<Rightarrow> CMakeCacheEntry list" where
  "constructed [] = []"
| "constructed ((nm, value, vt) # calls) =
     (case CMakeCacheEntry_init nm value vt of
        Inl err \<Rightarrow> constructed calls
      | Inr e \<Rightarrow> e # constructed calls)"

section \<open>Boolean coercion\<close>

subsection \<open>The model of \<^verbatim>\<open>int()\<close> accepts exactly the integer texts\<close>

lemma digit_not_space: "is_digit c \<Longrightarrow> \<not> is_space c"
  by (simp add: is_digit_def is_space_def)

lemma digit_not_sign: "is_digit c \<Longrightarrow> c \<noteq> CHR ''-'' \<and> c \<noteq> CHR ''+'' \<and> c \<noteq> CHR ''_''"
  by (auto simp: is_digit_def)

lemma sign_not_space: "\<not> is_space (CHR ''-'')" "\<not> is_space (CHR ''+'')"
  by (simp_all add: is_space_def)

inductive_cases digit_groups_NilE: "digit_groups []"

inductive_cases digit_groups_ConsE: "digit_groups (c # b)"

lemma digit_groups_Nil: "\<not> digit_groups []"
  by (auto elim: digit_groups_NilE)

lemma digit_groups_Cons:
  "digit_groups (c # cs) =
     (is_digit c \<and> (cs = [] \<or> digit_groups cs \<or> (\<exists>b. cs = CHR ''_'' # b \<and> digit_groups b)))"
  by (auto elim: digit_groups_ConsE intro: digit_groups.intros)

lemma digit_groups_last: "digit_groups b \<Longrightarrow> b \<noteq> [] \<and> is_digit (last b)"
  by (induction rule: digit_groups.induct) auto

lemma parse_digits_groups:
  "((parse_digits acc False b = Some r) =
      (digit_groups b \<and> r = foldl (\<lambda>a c. a * 10 + digit_val c) acc (filter is_digit b)))
   \<and> ((parse_digits acc True b = Some r) =
      ((b = [] \<and> r = acc)
       \<or> (digit_groups b \<and> r = foldl (\<lambda>a c. a * 10 + digit_val c) acc (filter is_digit b))
       \<or> (\<exists>b'. b = CHR ''_'' # b' \<and> digit_groups b'
             \<and> r = foldl (\<lambda>a c. a * 10 + digit_val c) acc (filter is_digit b'))))"
proof (induction b arbitrary: acc r)
  case Nil
  show ?case by (auto simp: digit_groups_Nil)
next
  case (Cons c cs)
  have u: "\<not> is_digit (CHR ''_'')" by (simp add: is_digit_def)
  show ?case
  proof (cases "is_digit c")
    case True
    with digit_not_sign [OF True] Cons [of "acc * 10 + digit_val c" r] u show ?thesis
      by (auto simp: digit_groups_Cons digit_groups_Nil)
  next
    case False
    from False Cons [of acc r] u show ?thesis
      by (auto simp: digit_groups_Cons)
  qed
qed

lemma parse_body_groups:
  "(parse_body b = Some r) =
     (digit_groups b \<and> length (filter is_digit b) \<le> 4300 \<and> r = decimal (filter is_digit b))"
  using parse_digits_groups [of 0 b r]
  by (auto simp: parse_body_def decimal_def int_max_str_digits_def)

lemma rev_split: "rev (dropWhile P (rev xs)) @ rev (takeWhile P (rev xs)) = xs"
proof -
  have "rev (rev (dropWhile P (rev xs)) @ rev (takeWhile P (rev xs))) = rev xs"
    by simp
  then show ?thesis
    by (rule rev_is_rev_conv [THEN iffD1])
qed

lemma strip_decompose:
  "\<exists>ws1 ws2. s = ws1 @ strip s @ ws2 \<and> list_all is_space ws1 \<and> list_all is_space ws2"
proof -
  let ?d = "dropWhile is_space s"
  let ?w1 = "takeWhile is_space s"
  let ?w2 = "rev (takeWhile is_space (rev ?d))"
  have d: "strip s @ ?w2 = ?d"
    unfolding strip_def by (rule rev_split)
  have "s = ?w1 @ ?d" by simp
  with d have s: "s = ?w1 @ strip s @ ?w2" by simp
  have "list_all is_space ?w1" "list_all is_space ?w2"
    by (auto simp: list_all_iff dest: set_takeWhileD)
  with s show ?thesis by blast
qed

lemma dropWhile_core:
  "x \<noteq> [] \<Longrightarrow> \<not> P (hd x) \<Longrightarrow> list_all P ws \<Longrightarrow> dropWhile P (ws @ x @ ys) = x @ ys"
  by (cases x) (simp_all add: dropWhile_append2 list_all_iff)

lemma strip_core:
  assumes "x \<noteq> []" and "\<not> is_space (hd x)" and "\<not> is_space (last x)"
    and "list_all is_space ws1" and "list_all is_space ws2"
  shows "strip (ws1 @ x @ ws2) = x"
proof -
  have a: "dropWhile is_space (ws1 @ x @ ws2) = x @ ws2"
    using assms(1,2,4) by (rule dropWhile_core)
  have r: "rev x \<noteq> []" "\<not> is_space (hd (rev x))" "list_all is_space (rev ws2)"
    using assms(1,3,5) by (simp_all add: hd_rev)
  have "dropWhile is_space (rev ws2 @ rev x @ []) = rev x @ []"
    using r by (rule dropWhile_core)
  then show ?thesis by (simp add: strip_def a)
qed

lemma py_int_literal: "(py_int s = Some n) = int_literal s n"
proof
  assume p: "py_int s = Some n"
  obtain ws1 ws2 where s: "s = ws1 @ strip s @ ws2"
    and w: "list_all is_space ws1" "list_all is_space ws2"
    using strip_decompose by blast
  from p obtain c cs where core: "strip s = c # cs"
    by (cases "strip s") (auto simp: py_int_def)
  show "int_literal s n"
  proof (cases "c = CHR ''-''")
    case True
    with p core obtain m where m: "parse_body cs = Some m" and n: "n = - int m"
      by (auto simp: py_int_def)
    from s core True have "s = ws1 @ ''-'' @ cs @ ws2" by simp
    with w m n show ?thesis
      unfolding int_literal_def parse_body_groups by blast
  next
    case minus: False
    show ?thesis
    proof (cases "c = CHR ''+''")
      case True
      with p core minus obtain m where m: "parse_body cs = Some m" and n: "n = int m"
        by (auto simp: py_int_def)
      from s core True have "s = ws1 @ ''+'' @ cs @ ws2" by simp
      with w m n show ?thesis
        unfolding int_literal_def parse_body_groups by blast
    next
      case False
      with p core minus obtain m where m: "parse_body (c # cs) = Some m" and n: "n = int m"
        by (auto simp: py_int_def)
      from s core have "s = ws1 @ [] @ (c # cs) @ ws2" by simp
      with w m n show ?thesis
        unfolding int_literal_def parse_body_groups by blast
    qed
  qed
next
  assume "int_literal s n"
  then obtain ws1 sg b ws2 where s: "s = ws1 @ sg @ b @ ws2"
    and w: "list_all is_space ws1" "list_all is_space ws2"
    and g: "digit_groups b" and l: "length (filter is_digit b) \<le> 4300"
    and v: "(sg = [] \<or> sg = ''+'') \<and> n = int (decimal (filter is_digit b))
            \<or> sg = ''-'' \<and> n = - int (decimal (filter is_digit b))"
    unfolding int_literal_def by blast
  from g l have body: "parse_body b = Some (decimal (filter is_digit b))"
    by (simp add: parse_body_groups)
  from g obtain c cs where b: "b = c # cs" and c: "is_digit c"
    by (cases b) (auto simp: digit_groups_Nil digit_groups_Cons)
  from digit_groups_last [OF g] have last: "\<not> is_space (last b)"
    by (simp add: digit_not_space)
  have x: "sg @ b \<noteq> []" "\<not> is_space (last (sg @ b))"
    using b last by simp_all
  have hd: "\<not> is_space (hd (sg @ b))"
    using v b c sign_not_space by (auto simp: digit_not_space)
  have "strip (ws1 @ (sg @ b) @ ws2) = sg @ b"
    using x(1) hd x(2) w by (rule strip_core)
  then have core: "strip s = sg @ b" by (simp add: s)
  from v show "py_int s = Some n"
    using digit_not_sign [OF c] body by (auto simp: py_int_def core b)
qed

subsection \<open>The classification\<close>

lemma dropWhile_keeps: "c \<in> set xs \<Longrightarrow> P c \<or> c \<in> set (dropWhile P xs)"
  by (induction xs) auto

lemma strip_chars: "c \<in> set s \<Longrightarrow> is_space c \<or> c \<in> set (strip s)"
  unfolding strip_def using dropWhile_keeps [of c s is_space]
    dropWhile_keeps [of c "rev (dropWhile is_space s)" is_space]
  by auto

lemma parse_digits_chars:
  "parse_digits acc prev s = Some n \<Longrightarrow> c \<in> set s \<Longrightarrow> is_digit c \<or> c = CHR ''_''"
  by (induction s arbitrary: acc prev) (auto split: if_splits)

lemma parse_body_chars:
  "parse_body s = Some n \<Longrightarrow> c \<in> set s \<Longrightarrow> is_digit c \<or> c = CHR ''_''"
  by (auto simp: parse_body_def split: if_splits dest: parse_digits_chars)

lemma py_int_chars:
  assumes "py_int s = Some n" and "c \<in> set s"
  shows "int_char c"
proof (cases "is_space c")
  case True
  then show ?thesis by (simp add: int_char_def)
next
  case False
  with assms(2) have mem: "c \<in> set (strip s)"
    using strip_chars by blast
  then obtain d ds where st: "strip s = d # ds"
    by (cases "strip s") auto
  show ?thesis
    using assms(1) mem st
    by (auto simp: py_int_def int_char_def split: if_splits dest: parse_body_chars)
qed

lemma endswith_set: "endswith s suf \<Longrightarrow> set suf \<subseteq> set s"
  unfolding endswith_def by (metis set_drop_subset)

lemma endswith_append: "endswith s suf = (\<exists>p. s = p @ suf)"
proof
  assume e: "endswith s suf"
  have "s = take (length s - length suf) s @ drop (length s - length suf) s"
    by simp
  with e have "s = take (length s - length suf) s @ suf"
    by (simp add: endswith_def)
  then show "\<exists>p. s = p @ suf" ..
next
  assume "\<exists>p. s = p @ suf"
  then show "endswith s suf"
    by (auto simp: endswith_def)
qed

lemma py_int_not_notfound: "py_int s = Some n \<Longrightarrow> \<not> endswith s NOTFOUND_SUFFIX"
proof
  assume a: "py_int s = Some n" and e: "endswith s NOTFOUND_SUFFIX"
  from endswith_set [OF e] have "CHR ''D'' \<in> set s"
    by (auto simp: NOTFOUND_SUFFIX_def)
  from py_int_chars [OF a this] show False
    by (simp add: int_char_def is_space_def is_digit_def)
qed

lemma py_int_falsey_values:
  "py_int ''0'' = Some 0" "py_int ''FALSE'' = None" "py_int ''OFF'' = None"
  "py_int ''NO'' = None" "py_int ''N'' = None" "py_int ''IGNORE'' = None"
  "py_int ''NOTFOUND'' = None" "py_int '''' = None"
  by (simp_all add: py_int_def strip_def is_space_def is_digit_def digit_val_def
      parse_body_def int_max_str_digits_def)

lemma is_truthy_spec: "is_truthy value = spec_truthy (upper (text_type value))"
  by (simp add: is_truthy_def spec_truthy_def TRUTHY_VALUES_def Let_def)

lemma is_falsey_spec: "is_falsey value = spec_falsey (upper (text_type value))"
  by (simp add: is_falsey_def spec_falsey_def FALSEY_VALUES_def NOTFOUND_SUFFIX_def Let_def)

lemma truthy_words_not_falsey:
  "t \<in> {''TRUE'', ''ON'', ''YES'', ''Y''} \<Longrightarrow> \<not> spec_falsey t"
  by (auto simp: spec_falsey_def endswith_def)

lemma spec_truthy_not_falsey: "spec_truthy t \<Longrightarrow> \<not> spec_falsey t"
proof (cases "t \<in> {''TRUE'', ''ON'', ''YES'', ''Y''}")
  case True
  then show ?thesis by (rule truthy_words_not_falsey)
next
  case False
  assume "spec_truthy t"
  with False obtain n where n: "py_int t = Some n" "n \<noteq> 0"
    by (auto simp: spec_truthy_def split: option.splits)
  from n(1) have "\<not> endswith t ''-NOTFOUND''"
    using py_int_not_notfound [of t n] by (simp add: NOTFOUND_SUFFIX_def)
  moreover from n have "t \<noteq> ''''"
    "t \<notin> {''0'', ''FALSE'', ''OFF'', ''NO'', ''N'', ''IGNORE'', ''NOTFOUND''}"
    using py_int_falsey_values by auto
  ultimately show ?thesis by (simp add: spec_falsey_def)
qed

lemma cmake_bool_spec:
  "cmake_bool value =
     (if spec_truthy (upper (text_type value)) then Inr True
      else if spec_falsey (upper (text_type value)) then Inr False
      else Inl InvalidBoolean)"
  by (simp add: cmake_bool_def is_truthy_spec is_falsey_spec)

lemma spec_truthy_text: "spec_truthy t = truthy_text t"
proof (cases "py_int t")
  case None
  then have "\<And>n. \<not> int_literal t n"
    by (simp add: py_int_literal [symmetric])
  with None show ?thesis
    by (simp add: spec_truthy_def truthy_text_def)
next
  case (Some m)
  then have "\<And>n. int_literal t n = (n = m)"
    by (auto simp: py_int_literal [symmetric])
  with Some show ?thesis
    by (simp add: spec_truthy_def truthy_text_def)
qed

lemma spec_falsey_text: "spec_falsey t = falsey_text t"
  by (simp add: spec_falsey_def falsey_text_def endswith_append)

lemma cmake_bool_examples:
  "cmake_bool (PyStr ''1'') = Inr True"
  "cmake_bool (PyStr ''2'') = Inr True"
  "cmake_bool (PyStr ''-7'') = Inr True"
  "cmake_bool (PyStr '' +12 '') = Inr True"
  "cmake_bool (PyStr ''1_000'') = Inr True"
  "cmake_bool (PyStr [CHR 0xA0, CHR ''1'']) = Inr True"
  "cmake_bool (PyStr [CHR 0x85, CHR ''1'']) = Inr True"
  "cmake_bool (PyInt 2) = Inr True"
  "cmake_bool (PyBool True) = Inr True"
  "cmake_bool (PyStr ''yes'') = Inr True"
  "cmake_bool (PyStr ''0'') = Inr False"
  "cmake_bool (PyInt 0) = Inr False"
  "cmake_bool (PyBool False) = Inr False"
  "cmake_bool (PyStr '''') = Inr False"
  "cmake_bool (PyStr ''x-notfound'') = Inr False"
  "cmake_bool (PyStr ''maybe'') = Inl InvalidBoolean"
  "cmake_bool (PyStr ''2.5'') = Inl InvalidBoolean"
  "cmake_bool (PyStr ''00'') = Inl InvalidBoolean"
  "cmake_bool (PyStr ''1__0'') = Inl InvalidBoolean"
  "cmake_bool (PyStr ''- 1'') = Inl InvalidBoolean"
  "cmake_bool (PyFloat 1 0) = Inl InvalidBoolean"
  "cmake_bool PyNone = Inl InvalidBoolean"
  "cmake_bool (PyList []) = Inl InvalidBoolean"
  by code_simp+

text \<open>
  Claim C1. For every value, \<^verbatim>\<open>_cmake_bool\<close> renders the value to uppercase text. It
  returns true exactly when that text is one of \<^verbatim>\<open>TRUE\<close>, \<^verbatim>\<open>ON\<close>, \<^verbatim>\<open>YES\<close>, \<^verbatim>\<open>Y\<close> or
  denotes a nonzero integer: whitespace, an optional sign, digit groups joined by single
  underscores, whitespace. It returns false exactly when the text is empty, one of
  \<^verbatim>\<open>0\<close>, \<^verbatim>\<open>FALSE\<close>, \<^verbatim>\<open>OFF\<close>, \<^verbatim>\<open>NO\<close>, \<^verbatim>\<open>N\<close>, \<^verbatim>\<open>IGNORE\<close>, \<^verbatim>\<open>NOTFOUND\<close>, or ends in
  \<^verbatim>\<open>-NOTFOUND\<close>. It raises the invalid-boolean error exactly when the text is neither.
  So the texts \<^verbatim>\<open>1\<close>, \<^verbatim>\<open>2\<close>, \<^verbatim>\<open>-7\<close>, a signed number between spaces, \<^verbatim>\<open>1_000\<close>, and
  \<^verbatim>\<open>1\<close> after a no-break space or a next-line character, the integer 2 and the boolean
  true are true; the text \<^verbatim>\<open>0\<close>, the integer 0, the boolean false, the empty text and
  \<^verbatim>\<open>x-notfound\<close> are false; \<^verbatim>\<open>maybe\<close>, \<^verbatim>\<open>2.5\<close>, \<^verbatim>\<open>00\<close>, a doubled underscore, a sign
  parted from its digits, a float, \<^verbatim>\<open>None\<close> and a list are errors.
\<close>

theorem cmake_bool_classification:
  "((cmake_bool value = Inr True) = truthy_text (upper (text_type value)))
   \<and> ((cmake_bool value = Inr False) = falsey_text (upper (text_type value)))
   \<and> ((cmake_bool value = Inl InvalidBoolean) =
        (\<not> truthy_text (upper (text_type value)) \<and> \<not> falsey_text (upper (text_type value))))
   \<and> cmake_bool (PyStr ''1'') = Inr True
   \<and> cmake_bool (PyStr ''2'') = Inr True
   \<and> cmake_bool (PyStr ''-7'') = Inr True
   \<and> cmake_bool (PyStr '' +12 '') = Inr True
   \<and> cmake_bool (PyStr ''1_000'') = Inr True
   \<and> cmake_bool (PyStr [CHR 0xA0, CHR ''1'']) = Inr True
   \<and> cmake_bool (PyStr [CHR 0x85, CHR ''1'']) = Inr True
   \<and> cmake_bool (PyInt 2) = Inr True
   \<and> cmake_bool (PyBool True) = Inr True
   \<and> cmake_bool (PyStr ''yes'') = Inr True
   \<and> cmake_bool (PyStr ''0'') = Inr False
   \<and> cmake_bool (PyInt 0) = Inr False
   \<and> cmake_bool (PyBool False) = Inr False
   \<and> cmake_bool (PyStr '''') = Inr False
   \<and> cmake_bool (PyStr ''x-notfound'') = Inr False
   \<and> cmake_bool (PyStr ''maybe'') = Inl InvalidBoolean
   \<and> cmake_bool (PyStr ''2.5'') = Inl InvalidBoolean
   \<and> cmake_bool (PyStr ''00'') = Inl InvalidBoolean
   \<and> cmake_bool (PyStr ''1__0'') = Inl InvalidBoolean
   \<and> cmake_bool (PyStr ''- 1'') = Inl InvalidBoolean
   \<and> cmake_bool (PyFloat 1 0) = Inl InvalidBoolean
   \<and> cmake_bool PyNone = Inl InvalidBoolean
   \<and> cmake_bool (PyList []) = Inl InvalidBoolean"
proof -
  have "(cmake_bool value = Inr True) = truthy_text (upper (text_type value))"
    "(cmake_bool value = Inr False) = falsey_text (upper (text_type value))"
    "(cmake_bool value = Inl InvalidBoolean) =
       (\<not> truthy_text (upper (text_type value)) \<and> \<not> falsey_text (upper (text_type value)))"
    using spec_truthy_not_falsey [of "upper (text_type value)"]
    by (auto simp: cmake_bool_spec spec_truthy_text spec_falsey_text)
  then show ?thesis
    by (simp only: cmake_bool_examples simp_thms)
qed

theorem cmake_bool_classification_witness:
  "truthy_text ''2'' \<and> cmake_bool (PyStr ''2'') = Inr True
   \<and> truthy_text ''YES'' \<and> cmake_bool (PyStr ''yes'') = Inr True
   \<and> falsey_text ''X-NOTFOUND'' \<and> cmake_bool (PyStr ''x-notfound'') = Inr False
   \<and> \<not> truthy_text ''MAYBE'' \<and> \<not> falsey_text ''MAYBE''
   \<and> cmake_bool (PyStr ''maybe'') = Inl InvalidBoolean"
proof -
  have u: "upper (text_type (PyStr ''2'')) = ''2''"
    "upper (text_type (PyStr ''yes'')) = ''YES''"
    "upper (text_type (PyStr ''x-notfound'')) = ''X-NOTFOUND''"
    "upper (text_type (PyStr ''maybe'')) = ''MAYBE''"
    by code_simp+
  have v: "cmake_bool (PyStr ''2'') = Inr True" "cmake_bool (PyStr ''yes'') = Inr True"
    "cmake_bool (PyStr ''x-notfound'') = Inr False"
    "cmake_bool (PyStr ''maybe'') = Inl InvalidBoolean"
    using cmake_bool_classification [of PyNone] by simp_all
  have "truthy_text ''2''"
    using cmake_bool_classification [of "PyStr ''2''"] v(1) u(1) by simp
  moreover have "truthy_text ''YES''"
    using cmake_bool_classification [of "PyStr ''yes''"] v(2) u(2) by simp
  moreover have "falsey_text ''X-NOTFOUND''"
    using cmake_bool_classification [of "PyStr ''x-notfound''"] v(3) u(3) by simp
  moreover have "\<not> truthy_text ''MAYBE'' \<and> \<not> falsey_text ''MAYBE''"
    using cmake_bool_classification [of "PyStr ''maybe''"] v(4) u(4) by simp
  ultimately show ?thesis
    using v by simp
qed

section \<open>Cache entries\<close>

lemma members_eq: "members = [BOOL, FILEPATH, PATH, STRING, INTERNAL]"
  by (simp add: members_def register_def BOOL_def FILEPATH_def PATH_def STRING_def
      INTERNAL_def)

lemma from_name_spec:
  "from_name s =
     (if s \<in> {''BOOL'', ''FILEPATH'', ''PATH'', ''STRING'', ''INTERNAL''}
      then Inr (CMakeValueType s) else Inl UnknownType)"
  by (auto simp: from_name_def members_eq BOOL_def FILEPATH_def PATH_def STRING_def
      INTERNAL_def)

lemma py_eq_BOOL: "py_eq vt (PyValueType BOOL) = (vt = PyValueType BOOL)"
proof (cases vt)
  case (PyValueType t)
  then show ?thesis by (cases t) (simp add: BOOL_def)
qed simp_all

lemma resolve_type_spec:
  "resolve_type n w vt =
     (case vt of
        PyStr s \<Rightarrow>
          if s \<in> {''BOOL'', ''FILEPATH'', ''PATH'', ''STRING'', ''INTERNAL''}
          then Inr \<lparr>name = n, value_wrapper = w, value_type = PyValueType (CMakeValueType s)\<rparr>
          else Inl UnknownType
      | _ \<Rightarrow> Inr \<lparr>name = n, value_wrapper = w, value_type = vt\<rparr>)"
  by (simp add: resolve_type_def from_name_spec split: pyval.splits)

lemma resolve_type_member:
  "resolve_type n w (PyValueType t) = Inr \<lparr>name = n, value_wrapper = w, value_type = PyValueType t\<rparr>"
  by (simp add: resolve_type_def)

lemma init_bad_name:
  "\<not> is_string nm \<or> nm = PyStr '''' \<Longrightarrow> CMakeCacheEntry_init nm value vt = Inl InvalidName"
  by (cases nm) (auto simp: CMakeCacheEntry_init_def)

lemma init_list:
  "n \<noteq> [] \<Longrightarrow> CMakeCacheEntry_init (PyStr n) (PyList xs) vt =
     Inr \<lparr>name = n, value_wrapper = ListWrapper xs, value_type = PyValueType STRING\<rparr>"
  by (simp add: CMakeCacheEntry_init_def ListWrapper_init_def resolve_type_member)

lemma init_bool:
  "n \<noteq> [] \<Longrightarrow> \<not> is_list value \<Longrightarrow> is_bool value \<or> vt = PyValueType BOOL \<Longrightarrow>
   CMakeCacheEntry_init (PyStr n) value vt =
     (case cmake_bool value of
        Inl err \<Rightarrow> Inl err
      | Inr b \<Rightarrow> Inr \<lparr>name = n, value_wrapper = BoolWrapper b, value_type = PyValueType BOOL\<rparr>)"
  by (auto simp: CMakeCacheEntry_init_def BoolWrapper_init_def resolve_type_member py_eq_BOOL
      split: sum.splits)

lemma init_scalar:
  "n \<noteq> [] \<Longrightarrow> \<not> is_list value \<Longrightarrow> \<not> is_bool value \<Longrightarrow> vt \<noteq> PyValueType BOOL \<Longrightarrow>
   CMakeCacheEntry_init (PyStr n) value vt = resolve_type n (ValueWrapper value) vt"
  by (simp add: CMakeCacheEntry_init_def ValueWrapper_init_def py_eq_BOOL)

lemma init_name: "CMakeCacheEntry_init nm value vt = Inr e \<Longrightarrow> nm = PyStr (name e) \<and> name e \<noteq> []"
  by (cases nm)
     (auto simp: CMakeCacheEntry_init_def resolve_type_def ListWrapper_init_def
       BoolWrapper_init_def split: if_splits sum.splits pyval.splits)

lemma init_errors:
  "CMakeCacheEntry_init nm value vt = Inl err \<Longrightarrow>
   err = InvalidName \<or> err = InvalidBoolean \<or> err = UnknownType"
  by (cases nm)
     (auto simp: CMakeCacheEntry_init_def resolve_type_spec ListWrapper_init_def
       BoolWrapper_init_def cmake_bool_def split: if_splits sum.splits pyval.splits)

text \<open>
  As worded, claim C2 lets the entry's type be whatever the caller supplied. A type
  supplied as text is looked up in the registry instead: an unknown name makes the
  construction fail, and a known one is stored as the member, which is not equal to the text.
\<close>

theorem entry_construction_counterexample:
  "CMakeCacheEntry_init (PyStr ''X'') (PyStr ''v'') (PyStr ''NOPE'') = Inl UnknownType
   \<and> CMakeCacheEntry_init (PyStr ''X'') (PyStr ''v'') (PyStr ''STRING'') =
       Inr \<lparr>name = ''X'', value_wrapper = ValueWrapper (PyStr ''v''),
            value_type = PyValueType STRING\<rparr>
   \<and> \<not> py_eq (PyValueType STRING) (PyStr ''STRING'')"
  by (simp add: init_scalar resolve_type_spec BOOL_def STRING_def)

lemma set_list_example:
  "CMakeCache_set CMakeCache_init (PyStr ''X'') (PyList [PyInt 1, PyInt 2, PyInt 3]) PyNone =
     (Inr (), [(''X'', \<lparr>name = ''X'', value_wrapper = ListWrapper [PyInt 1, PyInt 2, PyInt 3],
                        value_type = PyValueType STRING\<rparr>)])"
  "entry_value \<lparr>name = ''X'', value_wrapper = ListWrapper [PyInt 1, PyInt 2, PyInt 3],
                value_type = PyValueType STRING\<rparr> = PyList [PyInt 1, PyInt 2, PyInt 3]"
  "entry_str \<lparr>name = ''X'', value_wrapper = ListWrapper [PyInt 1, PyInt 2, PyInt 3],
              value_type = PyValueType STRING\<rparr> = ''X:STRING=1;2;3''"
    by (simp_all add: CMakeCache_set_def CMakeCache_init_def init_list entry_value_def
        entry_str_def STRING_def string_of_int_def string_of_nat.simps digit_char_def)

text \<open>
  Claim C2, amended. For a non-empty text name: a list value is wrapped as a list and the
  type is STRING whatever the caller supplied; otherwise, when the value is a boolean or the
  caller passed the BOOL member, the value is coerced by the two tables, the entry is a
  boolean entry of type BOOL, and the construction fails with the invalid-boolean error
  when the value is neither truthy nor falsey; otherwise the value is wrapped as a scalar,
  and the type is what the caller supplied, except that a type supplied as text is resolved
  to the registry member of that name and the construction fails with the unknown-type
  error when there is none. In particular \<^verbatim>\<open>set("X", [1, 2, 3])\<close> stores an entry of type
  STRING with value \<^verbatim>\<open>[1, 2, 3]\<close> that renders as \<^verbatim>\<open>X:STRING=1;2;3\<close>.
\<close>

theorem entry_construction:
  "n \<noteq> [] \<Longrightarrow>
   (CMakeCacheEntry_init (PyStr n) value vt =
     (case value of
        PyList xs \<Rightarrow>
          Inr \<lparr>name = n, value_wrapper = ListWrapper xs, value_type = PyValueType STRING\<rparr>
      | _ \<Rightarrow>
          if is_bool value \<or> vt = PyValueType BOOL then
            (if spec_truthy (upper (text_type value)) then
               Inr \<lparr>name = n, value_wrapper = BoolWrapper True, value_type = PyValueType BOOL\<rparr>
             else if spec_falsey (upper (text_type value)) then
               Inr \<lparr>name = n, value_wrapper = BoolWrapper False, value_type = PyValueType BOOL\<rparr>
             else Inl InvalidBoolean)
          else
            (case vt of
               PyStr s \<Rightarrow>
                 if s \<in> {''BOOL'', ''FILEPATH'', ''PATH'', ''STRING'', ''INTERNAL''}
                 then Inr \<lparr>name = n, value_wrapper = ValueWrapper value,
                          value_type = PyValueType (CMakeValueType s)\<rparr>
                 else Inl UnknownType
             | _ \<Rightarrow> Inr \<lparr>name = n, value_wrapper = ValueWrapper value, value_type = vt\<rparr>)))
   \<and> CMakeCache_set CMakeCache_init (PyStr ''X'') (PyList [PyInt 1, PyInt 2, PyInt 3]) PyNone =
       (Inr (), [(''X'', \<lparr>name = ''X'', value_wrapper = ListWrapper [PyInt 1, PyInt 2, PyInt 3],
                          value_type = PyValueType STRING\<rparr>)])
   \<and> entry_value \<lparr>name = ''X'', value_wrapper = ListWrapper [PyInt 1, PyInt 2, PyInt 3],
                   value_type = PyValueType STRING\<rparr> = PyList [PyInt 1, PyInt 2, PyInt 3]
   \<and> entry_str \<lparr>name = ''X'', value_wrapper = ListWrapper [PyInt 1, PyInt 2, PyInt 3],
                 value_type = PyValueType STRING\<rparr> = ''X:STRING=1;2;3''"
proof -
  assume n: "n \<noteq> []"
  have main: "CMakeCacheEntry_init (PyStr n) value vt =
     (case value of
        PyList xs \<Rightarrow>
          Inr \<lparr>name = n, value_wrapper = ListWrapper xs, value_type = PyValueType STRING\<rparr>
      | _ \<Rightarrow>
          if is_bool value \<or> vt = PyValueType BOOL then
            (if spec_truthy (upper (text_type value)) then
               Inr \<lparr>name = n, value_wrapper = BoolWrapper True, value_type = PyValueType BOOL\<rparr>
             else if spec_falsey (upper (text_type value)) then
               Inr \<lparr>name = n, value_wrapper = BoolWrapper False, value_type = PyValueType BOOL\<rparr>
             else Inl InvalidBoolean)
          else
            (case vt of
               PyStr s \<Rightarrow>
                 if s \<in> {''BOOL'', ''FILEPATH'', ''PATH'', ''STRING'', ''INTERNAL''}
                 then Inr \<lparr>name = n, value_wrapper = ValueWrapper value,
                          value_type = PyValueType (CMakeValueType s)\<rparr>
                 else Inl UnknownType
             | _ \<Rightarrow> Inr \<lparr>name = n, value_wrapper = ValueWrapper value, value_type = vt\<rparr>))"
  proof (cases "is_list value")
    case True
    with n show ?thesis by (cases "value") (auto simp: init_list)
  next
    case nl: False
    show ?thesis
    proof (cases "is_bool value \<or> vt = PyValueType BOOL")
      case True
      from init_bool [OF n nl True] True nl show ?thesis
        by (cases "value") (auto simp: cmake_bool_spec)
    next
      case False
      with init_scalar [OF n nl] nl show ?thesis
        by (cases "value") (auto simp: resolve_type_spec)
    qed
  qed
  from main set_list_example show ?thesis by simp
qed

theorem entry_construction_witness:
  "''X'' \<noteq> []
   \<and> CMakeCacheEntry_init (PyStr ''X'') (PyStr ''On'') (PyValueType BOOL) =
       Inr \<lparr>name = ''X'', value_wrapper = BoolWrapper True, value_type = PyValueType BOOL\<rparr>"
proof -
  have t: "spec_truthy (upper (text_type (PyStr ''On'')))"
    by code_simp
  show ?thesis
    using entry_construction [of "''X''" "PyStr ''On''" "PyValueType BOOL"] t
    by simp
qed

text \<open>
  As worded, claim C9 covers every non-boolean value. A list is one, and with the type
  given as the text \<^verbatim>\<open>BOOL\<close> it is still wrapped as a list, of type STRING.
\<close>

theorem text_bool_type_counterexample:
  "CMakeCacheEntry_init (PyStr ''X'') (PyList [PyInt 1]) (PyStr ''BOOL'') =
     Inr \<lparr>name = ''X'', value_wrapper = ListWrapper [PyInt 1], value_type = PyValueType STRING\<rparr>
   \<and> \<not> is_bool (PyList [PyInt 1])
   \<and> ListWrapper [PyInt 1] \<noteq> ValueWrapper (PyList [PyInt 1])
   \<and> PyValueType STRING \<noteq> PyValueType BOOL"
  by (simp add: init_list STRING_def BOOL_def)

text \<open>
  Claim C9, amended. When the caller supplies the type as the text \<^verbatim>\<open>BOOL\<close> with a
  valid name and a value that is neither a boolean nor a list, the entry is a scalar: the
  value is stored as it is, not validated or coerced by the two tables, and the type is
  resolved to the BOOL member. \<^verbatim>\<open>set("X", "1", "BOOL")\<close> stores an entry that renders as
  \<^verbatim>\<open>X:BOOL=1\<close>.
\<close>

theorem text_bool_type_is_scalar:
  "n \<noteq> [] \<Longrightarrow> \<not> is_bool value \<Longrightarrow> \<not> is_list value \<Longrightarrow>
   CMakeCacheEntry_init (PyStr n) value (PyStr ''BOOL'') =
     Inr \<lparr>name = n, value_wrapper = ValueWrapper value, value_type = PyValueType BOOL\<rparr>
   \<and> CMakeCache_set CMakeCache_init (PyStr ''X'') (PyStr ''1'') (PyStr ''BOOL'') =
       (Inr (), [(''X'', \<lparr>name = ''X'', value_wrapper = ValueWrapper (PyStr ''1''),
                          value_type = PyValueType BOOL\<rparr>)])
   \<and> entry_str \<lparr>name = ''X'', value_wrapper = ValueWrapper (PyStr ''1''),
                 value_type = PyValueType BOOL\<rparr> = ''X:BOOL=1''"
  by (simp add: init_scalar resolve_type_spec BOOL_def CMakeCache_set_def CMakeCache_init_def
      entry_str_def)

theorem text_bool_type_is_scalar_witness:
  "''X'' \<noteq> [] \<and> \<not> is_bool (PyStr ''maybe'') \<and> \<not> is_list (PyStr ''maybe'')
   \<and> cmake_bool (PyStr ''maybe'') = Inl InvalidBoolean
   \<and> CMakeCacheEntry_init (PyStr ''X'') (PyStr ''maybe'') (PyStr ''BOOL'') =
       Inr \<lparr>name = ''X'', value_wrapper = ValueWrapper (PyStr ''maybe''),
            value_type = PyValueType BOOL\<rparr>"
proof -
  have b: "cmake_bool (PyStr ''maybe'') = Inl InvalidBoolean"
    by code_simp
  show ?thesis
    using text_bool_type_is_scalar [of "''X''" "PyStr ''maybe''"] b
    by simp
qed

lemma resolve_type_wrapper:
  "resolve_type n w vt = Inr e \<Longrightarrow> value_wrapper e = w \<and> name e = n"
  by (auto simp: resolve_type_def split: pyval.splits sum.splits)

text \<open>
  Claim C10. The entry constructor and \<^verbatim>\<open>set\<close> never raise the invalid-list error of
  the list wrapper, and for a value that is not a list (a tuple, for one) a constructed
  entry never holds a list wrapper: it holds the scalar wrapper of the value or the boolean
  wrapper of its coercion.
\<close>

theorem invalid_list_value_unreachable:
  "CMakeCacheEntry_init nm value vt \<noteq> Inl InvalidListValue
   \<and> fst (CMakeCache_set c nm value vt) \<noteq> Inl InvalidListValue
   \<and> (\<not> is_list value \<longrightarrow> CMakeCacheEntry_init nm value vt = Inr e \<longrightarrow>
        type_of (value_wrapper e) \<noteq> ListWrapperClass
        \<and> (value_wrapper e = ValueWrapper value
            \<or> (\<exists>b. value_wrapper e = BoolWrapper b \<and> cmake_bool value = Inr b)))"
proof -
  have a: "CMakeCacheEntry_init nm value vt \<noteq> Inl InvalidListValue"
    using init_errors [of nm "value" vt InvalidListValue] by auto
  have b: "fst (CMakeCache_set c nm value vt) \<noteq> Inl InvalidListValue"
    using a by (auto simp: CMakeCache_set_def split: sum.splits)
  have c: "type_of (value_wrapper e) \<noteq> ListWrapperClass
        \<and> (value_wrapper e = ValueWrapper value
            \<or> (\<exists>b. value_wrapper e = BoolWrapper b \<and> cmake_bool value = Inr b))"
    if nl: "\<not> is_list value" and ok: "CMakeCacheEntry_init nm value vt = Inr e"
  proof -
    from init_name [OF ok] have nm: "nm = PyStr (name e)" and ne: "name e \<noteq> []"
      by simp_all
    show ?thesis
    proof (cases "is_bool value \<or> vt = PyValueType BOOL")
      case True
      from init_bool [OF ne nl True] ok obtain b where b: "cmake_bool value = Inr b"
        and e: "e = \<lparr>name = name e, value_wrapper = BoolWrapper b,
                    value_type = PyValueType BOOL\<rparr>"
        by (auto simp: nm split: sum.splits)
      have "value_wrapper e = BoolWrapper b"
        by (subst e) simp
      with b show ?thesis by simp
    next
      case False
      with init_scalar [OF ne nl, of vt] ok
      have "resolve_type (name e) (ValueWrapper value) vt = Inr e"
        by (simp add: nm)
      from resolve_type_wrapper [OF this] show ?thesis by simp
    qed
  qed
  from a b c show ?thesis by blast
qed

theorem invalid_list_value_unreachable_witness:
  "\<not> is_list (PyTuple [PyInt 1, PyInt 2])
   \<and> CMakeCacheEntry_init (PyStr ''X'') (PyTuple [PyInt 1, PyInt 2]) PyNone =
       Inr \<lparr>name = ''X'', value_wrapper = ValueWrapper (PyTuple [PyInt 1, PyInt 2]),
            value_type = PyNone\<rparr>
   \<and> type_of (ValueWrapper (PyTuple [PyInt 1, PyInt 2])) \<noteq> ListWrapperClass"
proof -
  have i: "CMakeCacheEntry_init (PyStr ''X'') (PyTuple [PyInt 1, PyInt 2]) PyNone =
       Inr \<lparr>name = ''X'', value_wrapper = ValueWrapper (PyTuple [PyInt 1, PyInt 2]),
            value_type = PyNone\<rparr>"
    by (simp add: init_scalar resolve_type_def BOOL_def)
  show ?thesis
    using invalid_list_value_unreachable [of "PyStr ''X''" "PyTuple [PyInt 1, PyInt 2]" PyNone
        "[]" "\<lparr>name = ''X'', value_wrapper = ValueWrapper (PyTuple [PyInt 1, PyInt 2]),
            value_type = PyNone\<rparr>"] i
    by simp
qed

text \<open>
  Claim C8. When the construction of the entry fails, \<^verbatim>\<open>set\<close> raises that error and
  the cache is exactly what it was; the error is the invalid-name, the invalid-boolean or
  the unknown-type error.
\<close>

theorem failed_set_leaves_cache:
  "CMakeCacheEntry_init nm value vt = Inl err \<Longrightarrow>
   CMakeCache_set c nm value vt = (Inl err, c)
   \<and> (err = InvalidName \<or> err = InvalidBoolean \<or> err = UnknownType)"
  using init_errors [of nm "value" vt err] by (simp add: CMakeCache_set_def)

theorem failed_set_leaves_cache_witness:
  "CMakeCacheEntry_init (PyInt 1) PyNone PyNone = Inl InvalidName
   \<and> CMakeCache_set [(''A'', \<lparr>name = ''A'', value_wrapper = ValueWrapper PyNone,
                               value_type = PyNone\<rparr>)] (PyInt 1) PyNone PyNone =
       (Inl InvalidName, [(''A'', \<lparr>name = ''A'', value_wrapper = ValueWrapper PyNone,
                                   value_type = PyNone\<rparr>)])
   \<and> CMakeCacheEntry_init (PyStr ''A'') (PyStr ''maybe'') (PyValueType BOOL) = Inl InvalidBoolean
   \<and> CMakeCache_set [(''A'', \<lparr>name = ''A'', value_wrapper = ValueWrapper PyNone,
                               value_type = PyNone\<rparr>)]
         (PyStr ''A'') (PyStr ''maybe'') (PyValueType BOOL) =
       (Inl InvalidBoolean, [(''A'', \<lparr>name = ''A'', value_wrapper = ValueWrapper PyNone,
                                      value_type = PyNone\<rparr>)])
   \<and> CMakeCacheEntry_init (PyStr ''A'') (PyInt 1) (PyStr ''NOPE'') = Inl UnknownType
   \<and> CMakeCache_set [(''A'', \<lparr>name = ''A'', value_wrapper = ValueWrapper PyNone,
                               value_type = PyNone\<rparr>)]
         (PyStr ''A'') (PyInt 1) (PyStr ''NOPE'') =
       (Inl UnknownType, [(''A'', \<lparr>name = ''A'', value_wrapper = ValueWrapper PyNone,
                                   value_type = PyNone\<rparr>)])"
proof -
  have b: "cmake_bool (PyStr ''maybe'') = Inl InvalidBoolean"
    by code_simp
  have i: "CMakeCacheEntry_init (PyInt 1) PyNone PyNone = Inl InvalidName"
    "CMakeCacheEntry_init (PyStr ''A'') (PyStr ''maybe'') (PyValueType BOOL) = Inl InvalidBoolean"
    "CMakeCacheEntry_init (PyStr ''A'') (PyInt 1) (PyStr ''NOPE'') = Inl UnknownType"
    using b by (simp_all add: init_bad_name init_bool init_scalar resolve_type_spec BOOL_def)
  show ?thesis
    using failed_set_leaves_cache [OF i(1)] failed_set_leaves_cache [OF i(2)]
      failed_set_leaves_cache [OF i(3)] i
    by simp
qed


section \<open>Value wrappers and rendering\<close>

lemma num_eq_sym: "num_eq a b = num_eq b a"
  by (cases a; cases b) (auto simp: min.commute)

lemma py_eq_sym: "py_eq a b = py_eq b a" and py_eq_list_sym: "py_eq_list xs ys = py_eq_list ys xs"
  by (induction a b and xs ys rule: py_eq_py_eq_list.induct)
     (auto simp: num_eq_sym split: option.splits)

lemma py_eq_bool: "py_eq (PyBool a) (PyBool b) = (a = b)"
  by simp

text \<open>
  As worded, claim C5 makes wrappers of different variants always unequal. The scalar
  wrapper is the base class of the other two, so its \<^verbatim>\<open>__eq__\<close> accepts them: a scalar
  holding true equals the boolean wrapper of true, in both orders, and a scalar holding a
  list equals the list wrapper of that list.
\<close>

theorem wrapper_equality_counterexample:
  "wrapper_eq (ValueWrapper (PyBool True)) (BoolWrapper True)
   \<and> wrapper_eq (BoolWrapper True) (ValueWrapper (PyBool True))
   \<and> wrapper_eq (ValueWrapper (PyList [PyInt 1])) (ListWrapper [PyInt 1])
   \<and> type_of (ValueWrapper (PyBool True)) \<noteq> type_of (BoolWrapper True)
   \<and> type_of (ValueWrapper (PyList [PyInt 1])) \<noteq> type_of (ListWrapper [PyInt 1])"
  by (simp add: wrapper_eq_def wrapper_eq_method_def isinstance_def)

text \<open>
  Claim C5, amended. Two wrappers are equal exactly when their contained values are equal
  and their variants are the same or one of them is the scalar variant; a boolean wrapper
  and a list wrapper are never equal.
\<close>

theorem wrapper_equality:
  "wrapper_eq v w =
     ((type_of v = type_of w \<or> type_of v = ValueWrapperClass \<or> type_of w = ValueWrapperClass)
      \<and> py_eq (wrapper_value v) (wrapper_value w))"
proof (cases v)
  case (ValueWrapper x)
  then show ?thesis
    by (cases w) (simp_all add: wrapper_eq_def wrapper_eq_method_def isinstance_def)
next
  case (BoolWrapper b)
  then show ?thesis
    by (cases w)
       (auto simp: wrapper_eq_def wrapper_eq_method_def isinstance_def num_eq_sym
         split: option.splits)
next
  case (ListWrapper xs)
  then show ?thesis
    by (cases w)
       (auto simp: wrapper_eq_def wrapper_eq_method_def isinstance_def
         py_eq_sym [of _ "PyList xs"] simp del: py_eq.simps)
qed

text \<open>
  As worded, claim C6 renders a scalar holding \<^verbatim>\<open>None\<close> as the empty text. It renders
  as the text of \<^verbatim>\<open>None\<close>, which is not empty.
\<close>

theorem scalar_rendering_counterexample:
  "wrapper_str (ValueWrapper_init PyNone) \<noteq> ''''"
  by (simp add: ValueWrapper_init_def)

text \<open>
  Claim C6, amended. A scalar wrapper renders as the text of its value: \<^verbatim>\<open>None\<close>
  renders as \<^verbatim>\<open>None\<close>, 42 as \<^verbatim>\<open>42\<close> and 2.718 as \<^verbatim>\<open>2.718\<close>.
\<close>

theorem scalar_rendering:
  "wrapper_str (ValueWrapper_init v) = text_type v
   \<and> wrapper_str (ValueWrapper_init PyNone) = ''None''
   \<and> wrapper_str (ValueWrapper_init (PyInt 42)) = ''42''
   \<and> wrapper_str (ValueWrapper_init (PyFloat 2718 (- 3))) = ''2.718''"
proof -
  have a: "text_type (PyInt 42) = ''42''" by code_simp
  have b: "text_type (PyFloat 2718 (- 3)) = ''2.718''" by code_simp
  show ?thesis using a b by (simp add: ValueWrapper_init_def)
qed

lemma args_example:
  "CMakeCache_args (set_all CMakeCache_init
      [(PyStr ''FOO'', PyBool False, PyNone), (PyStr ''BAR'', PyStr ''Foo'', PyNone),
       (PyStr ''BAZ'', PyInt 42, PyNone),
       (PyStr ''QUX'', PyList [PyStr ''A'', PyStr ''B'', PyStr ''C''], PyNone)]) =
     [''-DFOO:BOOL=FALSE'', ''-DBAR=Foo'', ''-DBAZ=42'', ''-DQUX:STRING=A;B;C'']"
  by code_simp

lemma bool_text_values:
  "wrapper_str (BoolWrapper True) = ''TRUE''" "wrapper_str (BoolWrapper False) = ''FALSE''"
  by code_simp+

lemma bool_text: "wrapper_str (BoolWrapper b) = (if b then ''TRUE'' else ''FALSE'')"
  using bool_text_values by (cases b) simp_all

text \<open>
  Claim C3. An entry renders as name, \<^verbatim>\<open>=\<close>, value when its type is \<^verbatim>\<open>None\<close>, and as
  name, \<^verbatim>\<open>:\<close>, type, \<^verbatim>\<open>=\<close>, value otherwise, a registry member rendering as its name;
  a boolean value renders as \<^verbatim>\<open>TRUE\<close> or \<^verbatim>\<open>FALSE\<close> and a list value as the texts of its
  elements joined by \<^verbatim>\<open>;\<close>, the empty list as the empty text. The \<^verbatim>\<open>args\<close> of a cache
  are \<^verbatim>\<open>-D\<close> followed by the text of each entry, in iteration order; after setting FOO to
  false, BAR to \<^verbatim>\<open>Foo\<close>, BAZ to 42 and QUX to the list A, B, C they are
  \<^verbatim>\<open>-DFOO:BOOL=FALSE\<close>, \<^verbatim>\<open>-DBAR=Foo\<close>, \<^verbatim>\<open>-DBAZ=42\<close>, \<^verbatim>\<open>-DQUX:STRING=A;B;C\<close>.
\<close>

theorem entry_rendering:
  "entry_str e =
     (if value_type e = PyNone then name e @ ''='' @ wrapper_str (value_wrapper e)
      else name e @ '':'' @ text_type (value_type e) @ ''='' @ wrapper_str (value_wrapper e))
   \<and> text_type (PyValueType t) = type_name t
   \<and> wrapper_str (BoolWrapper b) = (if b then ''TRUE'' else ''FALSE'')
   \<and> wrapper_str (ListWrapper xs) = join '';'' (map text_type xs)
   \<and> wrapper_str (ListWrapper []) = ''''
   \<and> CMakeCache_args c = map (\<lambda>e. ''-D'' @ entry_str e) (map snd c)
   \<and> CMakeCache_args (set_all CMakeCache_init
        [(PyStr ''FOO'', PyBool False, PyNone), (PyStr ''BAR'', PyStr ''Foo'', PyNone),
         (PyStr ''BAZ'', PyInt 42, PyNone),
         (PyStr ''QUX'', PyList [PyStr ''A'', PyStr ''B'', PyStr ''C''], PyNone)]) =
       [''-DFOO:BOOL=FALSE'', ''-DBAR=Foo'', ''-DBAZ=42'', ''-DQUX:STRING=A;B;C'']"
  using args_example bool_text [of b]
  by (simp add: entry_str_def CMakeCache_args_def CMakeCache_entries_def od_values_def)


section \<open>The cache as an ordered dictionary\<close>

lemma keys_setitem:
  "od_keys (od_setitem d k v) = (if k \<in> set (od_keys d) then od_keys d else od_keys d @ [k])"
  by (induction d) (force simp: od_keys_def)+

lemma map_of_setitem: "map_of (od_setitem d k v) = (map_of d)(k \<mapsto> v)"
  by (induction d) (auto simp: fun_eq_iff)

lemma distinct_setitem: "distinct (od_keys d) \<Longrightarrow> distinct (od_keys (od_setitem d k v))"
  by (simp add: keys_setitem)

lemma keys_update:
  "od_keys (od_update d other) =
     foldl (\<lambda>acc k. if k \<in> set acc then acc else acc @ [k]) (od_keys d) (od_keys other)"
proof (induction other arbitrary: d)
  case Nil
  show ?case by (simp add: od_update_def od_keys_def)
next
  case (Cons p other)
  have "od_update d (p # other) = od_update (od_setitem d (fst p) (snd p)) other"
    by (simp add: od_update_def)
  with Cons [of "od_setitem d (fst p) (snd p)"] show ?case
    by (simp add: keys_setitem) (simp add: od_keys_def)
qed

lemma foldl_new_keys:
  "distinct ks \<Longrightarrow>
   foldl (\<lambda>acc k. if k \<in> set acc then acc else acc @ [k]) acc ks =
     acc @ filter (\<lambda>k. k \<notin> set acc) ks"
proof (induction ks arbitrary: acc)
  case Nil
  show ?case by simp
next
  case (Cons k ks)
  then have d: "distinct ks" and nk: "k \<notin> set ks" by simp_all
  show ?case
  proof (cases "k \<in> set acc")
    case True
    with Cons.IH [OF d, of acc] show ?thesis by simp
  next
    case False
    from nk have "filter (\<lambda>x. x \<notin> set (acc @ [k])) ks = filter (\<lambda>x. x \<notin> set acc) ks"
      by (intro filter_cong) auto
    with False Cons.IH [OF d, of "acc @ [k]"] show ?thesis by simp
  qed
qed

lemma keys_update_distinct:
  "distinct (od_keys other) \<Longrightarrow>
   od_keys (od_update d other) = od_keys d @ filter (\<lambda>k. k \<notin> set (od_keys d)) (od_keys other)"
  by (simp add: keys_update foldl_new_keys)

lemma distinct_update:
  "distinct (od_keys d) \<Longrightarrow> distinct (od_keys other) \<Longrightarrow> distinct (od_keys (od_update d other))"
  by (auto simp: keys_update_distinct)

lemma map_of_update:
  "distinct (od_keys other) \<Longrightarrow>
   map_of (od_update d other) k =
     (case map_of other k of Some e \<Rightarrow> Some e | None \<Rightarrow> map_of d k)"
proof (induction other arbitrary: d)
  case Nil
  show ?case by (simp add: od_update_def)
next
  case (Cons p other)
  obtain a b where p: "p = (a, b)" by (cases p) auto
  from Cons.prems have d: "distinct (od_keys other)" and np: "a \<notin> set (od_keys other)"
    by (simp_all add: od_keys_def p)
  have u: "od_update d ((a, b) # other) = od_update (od_setitem d a b) other"
    by (simp add: od_update_def)
  from np have none: "map_of other a = None"
    by (simp add: od_keys_def map_of_eq_None_iff)
  show ?case
    using Cons.IH [OF d, of "od_setitem d a b"] none
    by (auto simp: p u map_of_setitem split: option.splits)
qed

lemma update_empty: "distinct (od_keys d) \<Longrightarrow> od_update [] d = d"
proof (induction d rule: rev_induct)
  case Nil
  show ?case by (simp add: od_update_def)
next
  case (snoc p d)
  then have d: "distinct (od_keys d)" and np: "fst p \<notin> set (od_keys d)"
    by (simp_all add: od_keys_def)
  have s: "od_setitem d (fst p) (snd p) = d @ [p]"
    using np by (induction d) (auto simp: od_keys_def)
  have "od_update [] (d @ [p]) = od_setitem (od_update [] d) (fst p) (snd p)"
    by (simp add: od_update_def)
  with snoc.IH [OF d] s show ?case by simp
qed

lemma keys_first_insertion:
  "od_keys (od_update [] kvs) = first_insertion_order (od_keys kvs)"
  unfolding first_insertion_order_def keys_update by (simp add: od_keys_def)

lemma set_success:
  "CMakeCacheEntry_init nm value vt = Inr e \<Longrightarrow>
   CMakeCache_set c nm value vt = (Inr (), od_setitem c (name e) e)"
  by (simp add: CMakeCache_set_def)

lemma set_all_update:
  "set_all c calls = od_update c (map (\<lambda>e. (name e, e)) (constructed calls))"
proof (induction calls arbitrary: c)
  case Nil
  show ?case by (simp add: od_update_def)
next
  case (Cons call calls)
  obtain nm v vt where call: "call = (nm, v, vt)" by (cases call) auto
  show ?case
    using Cons [of "snd (CMakeCache_set c nm v vt)"]
    by (cases "CMakeCacheEntry_init nm v vt")
       (simp_all add: call CMakeCache_set_def od_update_def)
qed

lemma absent_lookup: "k \<notin> set (od_keys d) \<Longrightarrow> map_of d k = None"
  by (simp add: od_keys_def map_of_eq_None_iff)

lemma pop_absent: "k \<notin> set (od_keys d) \<Longrightarrow> od_pop d k = Inl NotFound"
  by (simp add: od_pop_def absent_lookup)

lemma pop_present:
  "k \<in> set (od_keys d) \<Longrightarrow>
   \<exists>v. map_of d k = Some v \<and> od_pop d k = Inr (v, filter (\<lambda>p. fst p \<noteq> k) d)"
proof -
  assume "k \<in> set (od_keys d)"
  then obtain v where "map_of d k = Some v"
    by (auto simp: od_keys_def dest: weak_map_of_SomeI)
  then show ?thesis by (simp add: od_pop_def)
qed

lemma unset_absent:
  "k \<notin> set (od_keys c) \<Longrightarrow> CMakeCache_unset c k = (Inl NotFound, c)"
  by (simp add: CMakeCache_unset_def pop_absent)

lemma unset_present:
  "k \<in> set (od_keys c) \<Longrightarrow> CMakeCache_unset c k = (Inr (), filter (\<lambda>p. fst p \<noteq> k) c)"
  using pop_present [of k c] by (auto simp: CMakeCache_unset_def)

lemma keys_filter: "od_keys (filter (\<lambda>p. fst p \<noteq> k) d) = filter (\<lambda>x. x \<noteq> k) (od_keys d)"
  by (induction d) (auto simp: od_keys_def)

lemma filter_setitem:
  "filter (\<lambda>p. fst p \<noteq> k) (od_setitem d k v) = filter (\<lambda>p. fst p \<noteq> k) d"
  by (induction d) auto

lemma filter_absent: "k \<notin> set (od_keys d) \<Longrightarrow> filter (\<lambda>p. fst p \<noteq> k) d = d"
  by (induction d) (auto simp: od_keys_def)

lemma get_absent: "k \<notin> set (od_keys c) \<Longrightarrow> CMakeCache_get c k dflt = Default dflt"
  by (simp add: CMakeCache_get_def absent_lookup)

lemma get_present:
  "k \<in> set (od_keys c) \<Longrightarrow> \<exists>e. (k, e) \<in> set c \<and> CMakeCache_get c k dflt = Found e"
proof -
  assume "k \<in> set (od_keys c)"
  then obtain e where "map_of c k = Some e"
    by (auto simp: od_keys_def dest: weak_map_of_SomeI)
  then show ?thesis by (auto simp: CMakeCache_get_def dest: map_of_SomeD)
qed

lemma merge_example:
  "CMakeCache_add [(''A'', a), (''B'', b), (''C'', c)] [(''B'', b'), (''D'', d)] =
     [(''A'', a), (''B'', b'), (''C'', c), (''D'', d)]"
  by (simp add: CMakeCache_add_def CMakeCache_iadd_def CMakeCache_init_def od_update_def)

text \<open>
  Claim C4. Iteration order is first-insertion order, and every operation keeps it.
  A successful \<^verbatim>\<open>set\<close> of a name that is present replaces its entry and leaves the order
  of names as it was; of a new name, it appends the name. A cache filled by \<^verbatim>\<open>set\<close>
  calls lists the names of the constructed entries in first-insertion order.
  \<^verbatim>\<open>unset\<close> leaves the other names in their order. Merging keeps the names of the first
  cache in their places, appends the names found only in the second one in that cache's
  order, and gives every name of the second cache the second cache's entry; \<^verbatim>\<open>+\<close> on a
  cache gives what \<^verbatim>\<open>+=\<close> gives. Names stay unique under each operation. A cache with
  order A, B, C merged with one that sets B and adds D has order A, B, C, D, and B holds
  the second cache's entry.
\<close>

theorem insertion_order_preserved:
  "(CMakeCacheEntry_init nm value vt = Inr e \<longrightarrow>
      od_keys (snd (CMakeCache_set cache nm value vt)) =
        (if name e \<in> set (od_keys cache) then od_keys cache else od_keys cache @ [name e])
      \<and> map_of (snd (CMakeCache_set cache nm value vt)) = (map_of cache)(name e \<mapsto> e))
   \<and> od_keys (set_all CMakeCache_init calls) =
       first_insertion_order (map name (constructed calls))
   \<and> od_keys (snd (CMakeCache_unset cache k)) = filter (\<lambda>x. x \<noteq> k) (od_keys cache)
   \<and> (distinct (od_keys other) \<longrightarrow>
        od_keys (CMakeCache_iadd cache other) =
          od_keys cache @ filter (\<lambda>x. x \<notin> set (od_keys cache)) (od_keys other)
        \<and> map_of (CMakeCache_iadd cache other) k =
            (case map_of other k of Some x \<Rightarrow> Some x | None \<Rightarrow> map_of cache k))
   \<and> (distinct (od_keys cache) \<longrightarrow>
        CMakeCache_add cache other = CMakeCache_iadd cache other
        \<and> distinct (od_keys (snd (CMakeCache_set cache nm value vt)))
        \<and> distinct (od_keys (snd (CMakeCache_unset cache k)))
        \<and> (distinct (od_keys other) \<longrightarrow> distinct (od_keys (CMakeCache_iadd cache other))))
   \<and> CMakeCache_add [(''A'', a), (''B'', b), (''C'', c)] [(''B'', b'), (''D'', d)] =
       [(''A'', a), (''B'', b'), (''C'', c), (''D'', d)]"
proof -
  have set_ok: "od_keys (snd (CMakeCache_set cache nm value vt)) =
        (if name e \<in> set (od_keys cache) then od_keys cache else od_keys cache @ [name e])
      \<and> map_of (snd (CMakeCache_set cache nm value vt)) = (map_of cache)(name e \<mapsto> e)"
    if "CMakeCacheEntry_init nm value vt = Inr e"
    using set_success [OF that, of cache] by (simp add: keys_setitem map_of_setitem)
  have all: "od_keys (set_all CMakeCache_init calls) =
       first_insertion_order (map name (constructed calls))"
    by (simp add: set_all_update CMakeCache_init_def keys_first_insertion)
       (simp add: od_keys_def comp_def)
  have unset: "od_keys (snd (CMakeCache_unset cache k)) = filter (\<lambda>x. x \<noteq> k) (od_keys cache)"
  proof (cases "k \<in> set (od_keys cache)")
    case True
    then show ?thesis by (simp add: unset_present keys_filter)
  next
    case False
    then have "filter (\<lambda>x. x \<noteq> k) (od_keys cache) = od_keys cache"
      by (induction cache) (auto simp: od_keys_def)
    with False show ?thesis by (simp add: unset_absent)
  qed
  have iadd: "od_keys (CMakeCache_iadd cache other) =
          od_keys cache @ filter (\<lambda>x. x \<notin> set (od_keys cache)) (od_keys other)
        \<and> map_of (CMakeCache_iadd cache other) k =
            (case map_of other k of Some x \<Rightarrow> Some x | None \<Rightarrow> map_of cache k)"
    if "distinct (od_keys other)"
    using that by (simp add: CMakeCache_iadd_def keys_update_distinct map_of_update)
  have add: "CMakeCache_add cache other = CMakeCache_iadd cache other"
    if "distinct (od_keys cache)"
    using that by (simp add: CMakeCache_add_def CMakeCache_iadd_def CMakeCache_init_def update_empty)
  have d_set: "distinct (od_keys (snd (CMakeCache_set cache nm value vt)))"
    if "distinct (od_keys cache)"
    using that by (cases "CMakeCacheEntry_init nm value vt")
      (simp_all add: CMakeCache_set_def distinct_setitem)
  have d_unset: "distinct (od_keys (snd (CMakeCache_unset cache k)))"
    if "distinct (od_keys cache)"
    using that unset by simp
  have d_iadd: "distinct (od_keys (CMakeCache_iadd cache other))"
    if "distinct (od_keys cache)" "distinct (od_keys other)"
    using that by (simp add: CMakeCache_iadd_def distinct_update)
  from set_ok all unset iadd add d_set d_unset d_iadd merge_example [of a b c b' d]
  show ?thesis by blast
qed

lemma int_entry: "n \<noteq> [] \<Longrightarrow> CMakeCacheEntry_init (PyStr n) (PyInt i) PyNone =
    Inr \<lparr>name = n, value_wrapper = ValueWrapper (PyInt i), value_type = PyNone\<rparr>"
  by (simp add: init_scalar resolve_type_def BOOL_def)

theorem insertion_order_preserved_witness:
  "CMakeCacheEntry_init (PyStr ''B'') (PyInt 3) PyNone = Inr \<lparr>name = ''B'', value_wrapper = ValueWrapper (PyInt 3), value_type = PyNone\<rparr>
   \<and> distinct (od_keys [(''A'', \<lparr>name = ''A'', value_wrapper = ValueWrapper (PyInt 0), value_type = PyNone\<rparr>), (''B'', \<lparr>name = ''B'', value_wrapper = ValueWrapper (PyInt 1), value_type = PyNone\<rparr>), (''C'', \<lparr>name = ''C'', value_wrapper = ValueWrapper (PyInt 2), value_type = PyNone\<rparr>)]) \<and> distinct (od_keys [(''B'', \<lparr>name = ''B'', value_wrapper = ValueWrapper (PyInt 3), value_type = PyNone\<rparr>), (''D'', \<lparr>name = ''D'', value_wrapper = ValueWrapper (PyInt 4), value_type = PyNone\<rparr>)])
   \<and> od_keys (snd (CMakeCache_set [(''A'', \<lparr>name = ''A'', value_wrapper = ValueWrapper (PyInt 0), value_type = PyNone\<rparr>), (''B'', \<lparr>name = ''B'', value_wrapper = ValueWrapper (PyInt 1), value_type = PyNone\<rparr>), (''C'', \<lparr>name = ''C'', value_wrapper = ValueWrapper (PyInt 2), value_type = PyNone\<rparr>)] (PyStr ''B'') (PyInt 3) PyNone)) = [''A'', ''B'', ''C'']
   \<and> map_of (snd (CMakeCache_set [(''A'', \<lparr>name = ''A'', value_wrapper = ValueWrapper (PyInt 0), value_type = PyNone\<rparr>), (''B'', \<lparr>name = ''B'', value_wrapper = ValueWrapper (PyInt 1), value_type = PyNone\<rparr>), (''C'', \<lparr>name = ''C'', value_wrapper = ValueWrapper (PyInt 2), value_type = PyNone\<rparr>)] (PyStr ''B'') (PyInt 3) PyNone)) ''B'' = Some \<lparr>name = ''B'', value_wrapper = ValueWrapper (PyInt 3), value_type = PyNone\<rparr>
   \<and> od_keys (CMakeCache_iadd [(''A'', \<lparr>name = ''A'', value_wrapper = ValueWrapper (PyInt 0), value_type = PyNone\<rparr>), (''B'', \<lparr>name = ''B'', value_wrapper = ValueWrapper (PyInt 1), value_type = PyNone\<rparr>), (''C'', \<lparr>name = ''C'', value_wrapper = ValueWrapper (PyInt 2), value_type = PyNone\<rparr>)] [(''B'', \<lparr>name = ''B'', value_wrapper = ValueWrapper (PyInt 3), value_type = PyNone\<rparr>), (''D'', \<lparr>name = ''D'', value_wrapper = ValueWrapper (PyInt 4), value_type = PyNone\<rparr>)]) = [''A'', ''B'', ''C'', ''D'']
   \<and> map_of (CMakeCache_iadd [(''A'', \<lparr>name = ''A'', value_wrapper = ValueWrapper (PyInt 0), value_type = PyNone\<rparr>), (''B'', \<lparr>name = ''B'', value_wrapper = ValueWrapper (PyInt 1), value_type = PyNone\<rparr>), (''C'', \<lparr>name = ''C'', value_wrapper = ValueWrapper (PyInt 2), value_type = PyNone\<rparr>)] [(''B'', \<lparr>name = ''B'', value_wrapper = ValueWrapper (PyInt 3), value_type = PyNone\<rparr>), (''D'', \<lparr>name = ''D'', value_wrapper = ValueWrapper (PyInt 4), value_type = PyNone\<rparr>)]) ''B'' = Some \<lparr>name = ''B'', value_wrapper = ValueWrapper (PyInt 3), value_type = PyNone\<rparr>
   \<and> CMakeCache_add [(''A'', \<lparr>name = ''A'', value_wrapper = ValueWrapper (PyInt 0), value_type = PyNone\<rparr>), (''B'', \<lparr>name = ''B'', value_wrapper = ValueWrapper (PyInt 1), value_type = PyNone\<rparr>), (''C'', \<lparr>name = ''C'', value_wrapper = ValueWrapper (PyInt 2), value_type = PyNone\<rparr>)] [(''B'', \<lparr>name = ''B'', value_wrapper = ValueWrapper (PyInt 3), value_type = PyNone\<rparr>), (''D'', \<lparr>name = ''D'', value_wrapper = ValueWrapper (PyInt 4), value_type = PyNone\<rparr>)] = CMakeCache_iadd [(''A'', \<lparr>name = ''A'', value_wrapper = ValueWrapper (PyInt 0), value_type = PyNone\<rparr>), (''B'', \<lparr>name = ''B'', value_wrapper = ValueWrapper (PyInt 1), value_type = PyNone\<rparr>), (''C'', \<lparr>name = ''C'', value_wrapper = ValueWrapper (PyInt 2), value_type = PyNone\<rparr>)] [(''B'', \<lparr>name = ''B'', value_wrapper = ValueWrapper (PyInt 3), value_type = PyNone\<rparr>), (''D'', \<lparr>name = ''D'', value_wrapper = ValueWrapper (PyInt 4), value_type = PyNone\<rparr>)]
   \<and> od_keys (snd (CMakeCache_unset [(''A'', \<lparr>name = ''A'', value_wrapper = ValueWrapper (PyInt 0), value_type = PyNone\<rparr>), (''B'', \<lparr>name = ''B'', value_wrapper = ValueWrapper (PyInt 1), value_type = PyNone\<rparr>), (''C'', \<lparr>name = ''C'', value_wrapper = ValueWrapper (PyInt 2), value_type = PyNone\<rparr>)] ''B'')) = [''A'', ''C'']"
proof -
  have i: "CMakeCacheEntry_init (PyStr ''B'') (PyInt 3) PyNone = Inr \<lparr>name = ''B'', value_wrapper = ValueWrapper (PyInt 3), value_type = PyNone\<rparr>"
    by (simp add: int_entry)
  have d: "distinct (od_keys [(''A'', \<lparr>name = ''A'', value_wrapper = ValueWrapper (PyInt 0), value_type = PyNone\<rparr>), (''B'', \<lparr>name = ''B'', value_wrapper = ValueWrapper (PyInt 1), value_type = PyNone\<rparr>), (''C'', \<lparr>name = ''C'', value_wrapper = ValueWrapper (PyInt 2), value_type = PyNone\<rparr>)])" "distinct (od_keys [(''B'', \<lparr>name = ''B'', value_wrapper = ValueWrapper (PyInt 3), value_type = PyNone\<rparr>), (''D'', \<lparr>name = ''D'', value_wrapper = ValueWrapper (PyInt 4), value_type = PyNone\<rparr>)])"
    by (simp_all add: od_keys_def)
  show ?thesis
    using insertion_order_preserved [of "PyStr ''B''" "PyInt 3" PyNone "\<lparr>name = ''B'', value_wrapper = ValueWrapper (PyInt 3), value_type = PyNone\<rparr>" "[(''A'', \<lparr>name = ''A'', value_wrapper = ValueWrapper (PyInt 0), value_type = PyNone\<rparr>), (''B'', \<lparr>name = ''B'', value_wrapper = ValueWrapper (PyInt 1), value_type = PyNone\<rparr>), (''C'', \<lparr>name = ''C'', value_wrapper = ValueWrapper (PyInt 2), value_type = PyNone\<rparr>)]" "[]"
        "''B''" "[(''B'', \<lparr>name = ''B'', value_wrapper = ValueWrapper (PyInt 3), value_type = PyNone\<rparr>), (''D'', \<lparr>name = ''D'', value_wrapper = ValueWrapper (PyInt 4), value_type = PyNone\<rparr>)]" "\<lparr>name = ''A'', value_wrapper = ValueWrapper (PyInt 0), value_type = PyNone\<rparr>" "\<lparr>name = ''B'', value_wrapper = ValueWrapper (PyInt 1), value_type = PyNone\<rparr>" "\<lparr>name = ''C'', value_wrapper = ValueWrapper (PyInt 2), value_type = PyNone\<rparr>" "\<lparr>name = ''B'', value_wrapper = ValueWrapper (PyInt 3), value_type = PyNone\<rparr>" "\<lparr>name = ''D'', value_wrapper = ValueWrapper (PyInt 4), value_type = PyNone\<rparr>"] i d
    by (simp add: od_keys_def)
qed

lemma set_result:
  "CMakeCache_set cache (PyStr k) value vt = (Inr (), cache') \<Longrightarrow>
   \<exists>e. cache' = od_setitem cache k e"
proof (cases "CMakeCacheEntry_init (PyStr k) value vt")
  case (Inl err)
  assume "CMakeCache_set cache (PyStr k) value vt = (Inr (), cache')"
  with Inl show ?thesis by (simp add: CMakeCache_set_def)
next
  case (Inr e)
  assume s: "CMakeCache_set cache (PyStr k) value vt = (Inr (), cache')"
  from init_name [OF Inr] have "name e = k" by simp
  with s Inr show ?thesis by (auto simp: CMakeCache_set_def)
qed

text \<open>
  Claim C7. \<^verbatim>\<open>unset(name)\<close> raises the not-found error exactly when no entry has that
  name, leaving the cache as it is; otherwise it removes the entry. After a successful
  \<^verbatim>\<open>set(name, v)\<close> followed by \<^verbatim>\<open>unset(name)\<close> the cache is the original one without
  the name (the original one itself when the name was new): \<^verbatim>\<open>get(name, default)\<close>
  returns the default and a second \<^verbatim>\<open>unset(name)\<close> raises the not-found error.
  \<^verbatim>\<open>get\<close> has no failing outcome: it returns an entry stored under the name, or the
  default when the name is absent.
\<close>

theorem unset_and_get:
  "((fst (CMakeCache_unset cache k) = Inl NotFound) = (k \<notin> set (od_keys cache)))
   \<and> (k \<in> set (od_keys cache) \<longrightarrow>
        CMakeCache_unset cache k = (Inr (), filter (\<lambda>p. fst p \<noteq> k) cache))
   \<and> (k \<notin> set (od_keys cache) \<longrightarrow> CMakeCache_unset cache k = (Inl NotFound, cache))
   \<and> k \<notin> set (od_keys (filter (\<lambda>p. fst p \<noteq> k) cache))
   \<and> (CMakeCache_set cache (PyStr k) value vt = (Inr (), cache') \<longrightarrow>
        CMakeCache_unset cache' k = (Inr (), filter (\<lambda>p. fst p \<noteq> k) cache)
        \<and> CMakeCache_get (filter (\<lambda>p. fst p \<noteq> k) cache) k dflt = Default dflt
        \<and> CMakeCache_unset (filter (\<lambda>p. fst p \<noteq> k) cache) k =
            (Inl NotFound, filter (\<lambda>p. fst p \<noteq> k) cache)
        \<and> (k \<notin> set (od_keys cache) \<longrightarrow> filter (\<lambda>p. fst p \<noteq> k) cache = cache))
   \<and> ((\<exists>e. (k, e) \<in> set cache \<and> CMakeCache_get cache k dflt = Found e)
        \<or> (k \<notin> set (od_keys cache) \<and> CMakeCache_get cache k dflt = Default dflt))"
proof -
  have gone: "k \<notin> set (od_keys (filter (\<lambda>p. fst p \<noteq> k) cache))"
    by (simp add: keys_filter)
  have fails: "(fst (CMakeCache_unset cache k) = Inl NotFound) = (k \<notin> set (od_keys cache))"
    by (cases "k \<in> set (od_keys cache)") (simp_all add: unset_present unset_absent)
  have after: "CMakeCache_unset cache' k = (Inr (), filter (\<lambda>p. fst p \<noteq> k) cache)"
    if "CMakeCache_set cache (PyStr k) value vt = (Inr (), cache')"
  proof -
    from set_result [OF that] obtain e where c: "cache' = od_setitem cache k e" by blast
    then have "k \<in> set (od_keys cache')" by (simp add: keys_setitem)
    from unset_present [OF this] show ?thesis by (simp add: c filter_setitem)
  qed
  have get: "(\<exists>e. (k, e) \<in> set cache \<and> CMakeCache_get cache k dflt = Found e)
        \<or> (k \<notin> set (od_keys cache) \<and> CMakeCache_get cache k dflt = Default dflt)"
    using get_present [of k cache dflt] get_absent [of k cache dflt] by blast
  from gone fails after get unset_present [of k cache] unset_absent [of k cache]
    get_absent [OF gone, of dflt] unset_absent [OF gone] filter_absent [of k cache]
  show ?thesis by blast
qed

theorem unset_and_get_witness:
  "''B'' \<in> set (od_keys [(''A'', \<lparr>name = ''A'', value_wrapper = ValueWrapper (PyInt 0), value_type = PyNone\<rparr>), (''B'', \<lparr>name = ''B'', value_wrapper = ValueWrapper (PyInt 1), value_type = PyNone\<rparr>), (''C'', \<lparr>name = ''C'', value_wrapper = ValueWrapper (PyInt 2), value_type = PyNone\<rparr>)]) \<and> ''FOO'' \<notin> set (od_keys [(''A'', \<lparr>name = ''A'', value_wrapper = ValueWrapper (PyInt 0), value_type = PyNone\<rparr>), (''B'', \<lparr>name = ''B'', value_wrapper = ValueWrapper (PyInt 1), value_type = PyNone\<rparr>), (''C'', \<lparr>name = ''C'', value_wrapper = ValueWrapper (PyInt 2), value_type = PyNone\<rparr>)])
   \<and> CMakeCache_unset [(''A'', \<lparr>name = ''A'', value_wrapper = ValueWrapper (PyInt 0), value_type = PyNone\<rparr>), (''B'', \<lparr>name = ''B'', value_wrapper = ValueWrapper (PyInt 1), value_type = PyNone\<rparr>), (''C'', \<lparr>name = ''C'', value_wrapper = ValueWrapper (PyInt 2), value_type = PyNone\<rparr>)] ''B'' = (Inr (), [(''A'', \<lparr>name = ''A'', value_wrapper = ValueWrapper (PyInt 0), value_type = PyNone\<rparr>), (''C'', \<lparr>name = ''C'', value_wrapper = ValueWrapper (PyInt 2), value_type = PyNone\<rparr>)])
   \<and> CMakeCache_unset [(''A'', \<lparr>name = ''A'', value_wrapper = ValueWrapper (PyInt 0), value_type = PyNone\<rparr>), (''B'', \<lparr>name = ''B'', value_wrapper = ValueWrapper (PyInt 1), value_type = PyNone\<rparr>), (''C'', \<lparr>name = ''C'', value_wrapper = ValueWrapper (PyInt 2), value_type = PyNone\<rparr>)] ''FOO'' = (Inl NotFound, [(''A'', \<lparr>name = ''A'', value_wrapper = ValueWrapper (PyInt 0), value_type = PyNone\<rparr>), (''B'', \<lparr>name = ''B'', value_wrapper = ValueWrapper (PyInt 1), value_type = PyNone\<rparr>), (''C'', \<lparr>name = ''C'', value_wrapper = ValueWrapper (PyInt 2), value_type = PyNone\<rparr>)])
   \<and> CMakeCache_set [(''A'', \<lparr>name = ''A'', value_wrapper = ValueWrapper (PyInt 0), value_type = PyNone\<rparr>), (''B'', \<lparr>name = ''B'', value_wrapper = ValueWrapper (PyInt 1), value_type = PyNone\<rparr>), (''C'', \<lparr>name = ''C'', value_wrapper = ValueWrapper (PyInt 2), value_type = PyNone\<rparr>)] (PyStr ''FOO'') (PyInt 0) PyNone = (Inr (), [(''A'', \<lparr>name = ''A'', value_wrapper = ValueWrapper (PyInt 0), value_type = PyNone\<rparr>), (''B'', \<lparr>name = ''B'', value_wrapper = ValueWrapper (PyInt 1), value_type = PyNone\<rparr>), (''C'', \<lparr>name = ''C'', value_wrapper = ValueWrapper (PyInt 2), value_type = PyNone\<rparr>)] @ [(''FOO'', \<lparr>name = ''FOO'', value_wrapper = ValueWrapper (PyInt 0), value_type = PyNone\<rparr>)])
   \<and> CMakeCache_unset ([(''A'', \<lparr>name = ''A'', value_wrapper = ValueWrapper (PyInt 0), value_type = PyNone\<rparr>), (''B'', \<lparr>name = ''B'', value_wrapper = ValueWrapper (PyInt 1), value_type = PyNone\<rparr>), (''C'', \<lparr>name = ''C'', value_wrapper = ValueWrapper (PyInt 2), value_type = PyNone\<rparr>)] @ [(''FOO'', \<lparr>name = ''FOO'', value_wrapper = ValueWrapper (PyInt 0), value_type = PyNone\<rparr>)]) ''FOO'' = (Inr (), [(''A'', \<lparr>name = ''A'', value_wrapper = ValueWrapper (PyInt 0), value_type = PyNone\<rparr>), (''B'', \<lparr>name = ''B'', value_wrapper = ValueWrapper (PyInt 1), value_type = PyNone\<rparr>), (''C'', \<lparr>name = ''C'', value_wrapper = ValueWrapper (PyInt 2), value_type = PyNone\<rparr>)])
   \<and> CMakeCache_get [(''A'', \<lparr>name = ''A'', value_wrapper = ValueWrapper (PyInt 0), value_type = PyNone\<rparr>), (''B'', \<lparr>name = ''B'', value_wrapper = ValueWrapper (PyInt 1), value_type = PyNone\<rparr>), (''C'', \<lparr>name = ''C'', value_wrapper = ValueWrapper (PyInt 2), value_type = PyNone\<rparr>)] ''FOO'' PyNone = Default PyNone
   \<and> CMakeCache_get [(''A'', \<lparr>name = ''A'', value_wrapper = ValueWrapper (PyInt 0), value_type = PyNone\<rparr>), (''B'', \<lparr>name = ''B'', value_wrapper = ValueWrapper (PyInt 1), value_type = PyNone\<rparr>), (''C'', \<lparr>name = ''C'', value_wrapper = ValueWrapper (PyInt 2), value_type = PyNone\<rparr>)] ''B'' PyNone = Found \<lparr>name = ''B'', value_wrapper = ValueWrapper (PyInt 1), value_type = PyNone\<rparr>"
proof -
  have s: "CMakeCache_set [(''A'', \<lparr>name = ''A'', value_wrapper = ValueWrapper (PyInt 0), value_type = PyNone\<rparr>), (''B'', \<lparr>name = ''B'', value_wrapper = ValueWrapper (PyInt 1), value_type = PyNone\<rparr>), (''C'', \<lparr>name = ''C'', value_wrapper = ValueWrapper (PyInt 2), value_type = PyNone\<rparr>)] (PyStr ''FOO'') (PyInt 0) PyNone =
      (Inr (), [(''A'', \<lparr>name = ''A'', value_wrapper = ValueWrapper (PyInt 0), value_type = PyNone\<rparr>), (''B'', \<lparr>name = ''B'', value_wrapper = ValueWrapper (PyInt 1), value_type = PyNone\<rparr>), (''C'', \<lparr>name = ''C'', value_wrapper = ValueWrapper (PyInt 2), value_type = PyNone\<rparr>)] @ [(''FOO'', \<lparr>name = ''FOO'', value_wrapper = ValueWrapper (PyInt 0), value_type = PyNone\<rparr>)])"
    by (simp add: CMakeCache_set_def int_entry)
  have g: "CMakeCache_get [(''A'', \<lparr>name = ''A'', value_wrapper = ValueWrapper (PyInt 0), value_type = PyNone\<rparr>), (''B'', \<lparr>name = ''B'', value_wrapper = ValueWrapper (PyInt 1), value_type = PyNone\<rparr>), (''C'', \<lparr>name = ''C'', value_wrapper = ValueWrapper (PyInt 2), value_type = PyNone\<rparr>)] ''B'' PyNone = Found \<lparr>name = ''B'', value_wrapper = ValueWrapper (PyInt 1), value_type = PyNone\<rparr>"
    by (simp add: CMakeCache_get_def)
  show ?thesis
    using unset_and_get [of "[(''A'', \<lparr>name = ''A'', value_wrapper = ValueWrapper (PyInt 0), value_type = PyNone\<rparr>), (''B'', \<lparr>name = ''B'', value_wrapper = ValueWrapper (PyInt 1), value_type = PyNone\<rparr>), (''C'', \<lparr>name = ''C'', value_wrapper = ValueWrapper (PyInt 2), value_type = PyNone\<rparr>)]" "''B''" "PyInt 0" PyNone "[(''A'', \<lparr>name = ''A'', value_wrapper = ValueWrapper (PyInt 0), value_type = PyNone\<rparr>), (''B'', \<lparr>name = ''B'', value_wrapper = ValueWrapper (PyInt 1), value_type = PyNone\<rparr>), (''C'', \<lparr>name = ''C'', value_wrapper = ValueWrapper (PyInt 2), value_type = PyNone\<rparr>)]" PyNone]
      unset_and_get [of "[(''A'', \<lparr>name = ''A'', value_wrapper = ValueWrapper (PyInt 0), value_type = PyNone\<rparr>), (''B'', \<lparr>name = ''B'', value_wrapper = ValueWrapper (PyInt 1), value_type = PyNone\<rparr>), (''C'', \<lparr>name = ''C'', value_wrapper = ValueWrapper (PyInt 2), value_type = PyNone\<rparr>)]" "''FOO''" "PyInt 0" PyNone "[(''A'', \<lparr>name = ''A'', value_wrapper = ValueWrapper (PyInt 0), value_type = PyNone\<rparr>), (''B'', \<lparr>name = ''B'', value_wrapper = ValueWrapper (PyInt 1), value_type = PyNone\<rparr>), (''C'', \<lparr>name = ''C'', value_wrapper = ValueWrapper (PyInt 2), value_type = PyNone\<rparr>)] @ [(''FOO'', \<lparr>name = ''FOO'', value_wrapper = ValueWrapper (PyInt 0), value_type = PyNone\<rparr>)]" PyNone]
      s g
    by (simp add: od_keys_def)
qed

end
